theory Spec2Isabelle
  imports Main
begin

text \<open>
  A shallow embedding of the credential store (google_integration.py) and of the request
  handlers (routes.py) of the DREW backend. Python values keep their shape: a \<open>str\<close> is a
  \<open>string\<close>, \<open>None\<close> is \<open>None\<close>, a dict is the list of its items, a raised exception is the left
  summand of a result, a database session is a pair of a committed and a working state.
\<close>

section \<open>Python string primitives\<close>

text \<open>
  Strings are lists of 8-bit characters, read as the code points below 256. The
  whitespace set is the one of \<open>str.isspace\<close> and the line boundaries are the ones of
  \<open>str.splitlines\<close>, both cut down to that range.
\<close>

definition isspace :: "char \<Rightarrow> bool" where
  "isspace c = (c \<in> set [CHR 0x09, CHR 0x0A, CHR 0x0B, CHR 0x0C, CHR 0x0D,
                          CHR 0x1C, CHR 0x1D, CHR 0x1E, CHR 0x1F, CHR 0x20, CHR 0x85, CHR 0xA0])"

definition lstrip :: "string \<Rightarrow> string" where
  "lstrip s = dropWhile isspace s"

definition rstrip :: "string \<Rightarrow> string" where
  "rstrip s = rev (dropWhile isspace (rev s))"

definition strip :: "string \<Rightarrow> string" where
  "strip s = rstrip (lstrip s)"

definition startswith :: "string \<Rightarrow> string \<Rightarrow> bool" where
  "startswith s p = (take (length p) s = p)"

definition endswith :: "string \<Rightarrow> string \<Rightarrow> bool" where
  "endswith s p = (length p \<le> length s \<and> drop (length s - length p) s = p)"

definition is_linebreak :: "char \<Rightarrow> bool" where
  "is_linebreak c = (c \<in> set [CHR 0x0A, CHR 0x0B, CHR 0x0C, CHR 0x0D,
                               CHR 0x1C, CHR 0x1D, CHR 0x1E, CHR 0x85])"

fun splitlines_aux :: "string \<Rightarrow> string \<Rightarrow> string list" where
  "splitlines_aux cur [] = (if cur = [] then [] else [rev cur])"
| "splitlines_aux cur (c # cs) =
     (if c = CHR 0x0D then
        (case cs of
           d # ds \<Rightarrow> if d = CHR 0x0A then rev cur # splitlines_aux [] ds
                     else rev cur # splitlines_aux [] cs
         | [] \<Rightarrow> rev cur # splitlines_aux [] cs)
      else if is_linebreak c then rev cur # splitlines_aux [] cs
      else splitlines_aux (c # cur) cs)"

definition splitlines :: "string \<Rightarrow> string list" where
  "splitlines s = splitlines_aux [] s"

definition lower_char :: "char \<Rightarrow> char" where
  "lower_char c =
     (let n = (of_char c :: nat)
      in if (65 \<le> n \<and> n \<le> 90) \<or> (192 \<le> n \<and> n \<le> 222 \<and> n \<noteq> 215)
         then char_of (n + 32) else c)"

definition lower :: "string \<Rightarrow> string" where
  "lower s = map lower_char s"

fun join :: "string \<Rightarrow> string list \<Rightarrow> string" where
  "join sep [] = []"
| "join sep [x] = x"
| "join sep (x # y # ys) = x @ sep @ join sep (y # ys)"

definition clean_generated_email :: "string \<Rightarrow> string" where
  "clean_generated_email email_text =
     (let t0 = strip email_text;
          t1 = (if startswith t0 ''```'' \<and> endswith t0 ''```''
                then strip (drop 3 (take (length t0 - 3) t0)) else t0);
          lines = splitlines t1
      in if lines \<noteq> [] \<and> lower (strip (hd lines)) = ''html''
         then strip (join [CHR 0x0A] (tl lines)) else t1)"


text \<open>
  The two tests of \<open>clean_generated_email\<close>, named: the text is wrapped in a fence of
  three backticks; the first line of the text is a bare \<open>html\<close>.
\<close>

definition fenced :: "string \<Rightarrow> bool" where
  "fenced t = (startswith t ''```'' \<and> endswith t ''```'')"

definition html_led :: "string \<Rightarrow> bool" where
  "html_led t = (splitlines t \<noteq> [] \<and> lower (strip (hd (splitlines t))) = ''html'')"

section \<open>Values: JSON, exceptions, dates and times\<close>

text \<open>
  The value of a JSON column and the body of a JSON response. A Python dict literal is
  the list of its items in the order the source writes them.
\<close>

datatype json =
    JNull
  | JBool bool
  | JInt int
  | JStr string
  | JArr "json list"
  | JObj "(string \<times> json) list"

text \<open>\<open>d.get(k)\<close> on a dict held as a list of items.\<close>

definition dict_get :: "(string \<times> json) list \<Rightarrow> string \<Rightarrow> json option" where
  "dict_get d k = map_of d k"

text \<open>A nullable string column as a JSON value: \<open>None\<close> is \<open>null\<close>.\<close>

definition json_opt_str :: "string option \<Rightarrow> json" where
  "json_opt_str v = (case v of None \<Rightarrow> JNull | Some s \<Rightarrow> JStr s)"

text \<open>Python's truth test on an optional string: \<open>None\<close> and the empty string are false.\<close>

definition truthy_str :: "string option \<Rightarrow> bool" where
  "truthy_str v = (case v of None \<Rightarrow> False | Some s \<Rightarrow> s \<noteq> [])"

text \<open>
  The exceptions the modelled code raises or catches. \<open>HTTPException\<close> carries the
  status code and the detail; it is a subclass of \<open>Exception\<close>, so a handler's
  \<open>except Exception\<close> catches it as well. \<open>DatabaseError\<close> is any exception of the
  database layer, the \<open>IntegrityError\<close> of a violated foreign key among them.
\<close>

datatype exn =
    HTTPException nat json
  | ValueError
  | TypeError
  | KeyError
  | OverflowError
  | AttributeError
  | DatabaseError
  | TransportError

text \<open>An HTTP response: the status code and the JSON body.\<close>

record response =
  status_code :: nat
  content :: json

definition JSONResponse :: "nat \<Rightarrow> json \<Rightarrow> response" where
  "JSONResponse code body = \<lparr>status_code = code, content = body\<rparr>"

text \<open>
  What the framework sends for an \<open>HTTPException\<close> that leaves a handler: its status
  code, and the detail under the key \<open>detail\<close>. Any other exception that leaves a
  handler is a plain 500.
\<close>

definition raised_response :: "exn \<Rightarrow> response" where
  "raised_response e =
     (case e of
        HTTPException code detail \<Rightarrow> JSONResponse code (JObj [(''detail'', detail)])
      | _ \<Rightarrow> JSONResponse 500 (JStr ''Internal Server Error''))"

subsection \<open>More string methods\<close>

definition upper_char :: "char \<Rightarrow> char" where
  "upper_char c =
     (let n = (of_char c :: nat)
      in if (97 \<le> n \<and> n \<le> 122) \<or> (224 \<le> n \<and> n \<le> 254 \<and> n \<noteq> 247)
         then char_of (n - 32) else c)"

definition upper :: "string \<Rightarrow> string" where
  "upper s = map upper_char s"

text \<open>\<open>s.replace('Z', '+00:00')\<close>: every \<open>Z\<close> of the string is replaced.\<close>

definition replace_Z :: "string \<Rightarrow> string" where
  "replace_Z s = concat (map (\<lambda>c. if c = CHR ''Z'' then ''+00:00'' else [c]) s)"

definition digit_char :: "nat \<Rightarrow> char" where
  "digit_char d = ''0123456789'' ! (d mod 10)"

text \<open>\<open>'%0wd' % n\<close> for a number of at most \<open>w\<close> digits, as every field of a date is.\<close>

fun zfill :: "nat \<Rightarrow> nat \<Rightarrow> string" where
  "zfill 0 n = []"
| "zfill (Suc w) n = zfill w (n div 10) @ [digit_char n]"

text \<open>\<open>str(n)\<close> for a count: the decimal digits, by the number of digits.\<close>

fun ndigits :: "nat \<Rightarrow> nat \<Rightarrow> nat" where
  "ndigits 0 n = 1"
| "ndigits (Suc fuel) n = (if n < 10 then 1 else Suc (ndigits fuel (n div 10)))"

definition str_nat :: "nat \<Rightarrow> string" where
  "str_nat n = zfill (ndigits n n) n"

subsection \<open>datetime\<close>

text \<open>
  A \<open>datetime\<close> object: the calendar fields and the UTC offset of its \<open>tzinfo\<close> in
  microseconds (\<open>None\<close> for a naive value).
\<close>

record datetime =
  year :: nat
  month :: nat
  day :: nat
  hour :: nat
  minute :: nat
  second :: nat
  microsecond :: nat
  tzinfo :: "int option"

definition is_leap :: "nat \<Rightarrow> bool" where
  "is_leap y = (y mod 4 = 0 \<and> (0 < y mod 100 \<or> y mod 400 = 0))"

definition days_in_month :: "nat \<Rightarrow> nat \<Rightarrow> nat" where
  "days_in_month y m =
     (if m = 2 then (if is_leap y then 29 else 28)
      else if m = 4 \<or> m = 6 \<or> m = 9 \<or> m = 11 then 30 else 31)"

text \<open>The range checks of the \<open>datetime\<close> constructor: every datetime object passes them.\<close>

definition valid_datetime :: "datetime \<Rightarrow> bool" where
  "valid_datetime d =
     (1 \<le> year d \<and> year d \<le> 9999 \<and> 1 \<le> month d \<and> month d \<le> 12
      \<and> 1 \<le> day d \<and> day d \<le> days_in_month (year d) (month d)
      \<and> hour d < 24 \<and> minute d < 60 \<and> second d < 60 \<and> microsecond d < 1000000
      \<and> (case tzinfo d of None \<Rightarrow> True | Some off \<Rightarrow> \<bar>off\<bar> < 86400000000))"

text \<open>The proleptic Gregorian ordinal of a date (1 for 0001-01-01), as \<open>toordinal\<close>
  computes it: the days before the year, the days before the month (from the table of
  a common year, one more after February of a leap year) and the day.\<close>

definition days_before_year :: "nat \<Rightarrow> nat" where
  "days_before_year y = (y - 1) * 365 + (y - 1) div 4 - (y - 1) div 100 + (y - 1) div 400"

definition days_before_month :: "nat \<Rightarrow> nat \<Rightarrow> nat" where
  "days_before_month y m =
     [0, 0, 31, 59, 90, 120, 151, 181, 212, 243, 273, 304, 334] ! m
     + (if 2 < m \<and> is_leap y then 1 else 0)"

definition toordinal :: "datetime \<Rightarrow> nat" where
  "toordinal d = days_before_year (year d) + days_before_month (year d) (month d) + day d"

text \<open>The wall-clock reading of a datetime in microseconds since the day before ordinal 1.\<close>

definition wall_micros :: "datetime \<Rightarrow> nat" where
  "wall_micros d =
     (((toordinal d * 24 + hour d) * 60 + minute d) * 60 + second d) * 1000000 + microsecond d"

text \<open>
  \<open>dt + timedelta(hours=1)\<close>: the hour is carried into the date, the \<open>tzinfo\<close> is kept,
  and a result past year 9999 is an \<open>OverflowError\<close> (here \<open>None\<close>).
\<close>

definition next_day :: "nat \<times> nat \<times> nat \<Rightarrow> nat \<times> nat \<times> nat" where
  "next_day ymd =
     (case ymd of (y, m, d) \<Rightarrow>
        if d < days_in_month y m then (y, m, d + 1)
        else if m < 12 then (y, m + 1, 1)
        else (y + 1, 1, 1))"

definition plus_one_hour :: "datetime \<Rightarrow> datetime option" where
  "plus_one_hour dt =
     (if hour dt < 23 then Some (dt\<lparr>hour := hour dt + 1\<rparr>)
      else (case next_day (year dt, month dt, day dt) of (y, m, d) \<Rightarrow>
              if 9999 < y then None
              else Some (dt\<lparr>year := y, month := m, day := d, hour := 0\<rparr>)))"

text \<open>\<open>dt.isoformat()\<close>.\<close>

definition format_offset :: "int \<Rightarrow> string" where
  "format_offset off =
     (let a = nat \<bar>off\<bar>;
          hh = a div 3600000000;
          mm = (a mod 3600000000) div 60000000;
          ss = (a mod 60000000) div 1000000;
          us = a mod 1000000
      in (if off < 0 then ''-'' else ''+'') @ zfill 2 hh @ '':'' @ zfill 2 mm
         @ (if ss \<noteq> 0 \<or> us \<noteq> 0 then '':'' @ zfill 2 ss else [])
         @ (if us \<noteq> 0 then ''.'' @ zfill 6 us else []))"

definition isoformat :: "datetime \<Rightarrow> string" where
  "isoformat d =
     zfill 4 (year d) @ ''-'' @ zfill 2 (month d) @ ''-'' @ zfill 2 (day d) @ ''T''
     @ zfill 2 (hour d) @ '':'' @ zfill 2 (minute d) @ '':'' @ zfill 2 (second d)
     @ (if microsecond d \<noteq> 0 then ''.'' @ zfill 6 (microsecond d) else [])
     @ (case tzinfo d of None \<Rightarrow> [] | Some off \<Rightarrow> format_offset off)"

text \<open>
  \<open>a <= b\<close> on datetimes: two naive values compare by their fields, two aware values by
  their UTC instants, and a naive value against an aware one is a \<open>TypeError\<close> (here
  \<open>None\<close>).
\<close>

definition datetime_le :: "datetime \<Rightarrow> datetime \<Rightarrow> bool option" where
  "datetime_le a b =
     (case (tzinfo a, tzinfo b) of
        (None, None) \<Rightarrow> Some (wall_micros a \<le> wall_micros b)
      | (Some oa, Some ob) \<Rightarrow> Some (int (wall_micros a) - oa \<le> int (wall_micros b) - ob)
      | _ \<Rightarrow> None)"

text \<open>
  \<open>datetime.fromisoformat\<close> belongs to the Python library, and the strings it accepts
  differ between Python versions; the handlers take it as a parameter
  (\<open>None\<close> for its \<open>ValueError\<close>). For the examples, \<open>fromisoformat_basic\<close> is the
  parser of the form every version accepts and \<open>isoformat\<close> writes:
  \<open>YYYY-MM-DDTHH:MM:SS\<close>, alone or followed by an offset \<open>+HH:MM\<close> or \<open>-HH:MM\<close>.
\<close>

definition is_digit :: "char \<Rightarrow> bool" where
  "is_digit c = (c \<in> set ''0123456789'')"

definition parse_digits :: "string \<Rightarrow> nat option" where
  "parse_digits s =
     (if s \<noteq> [] \<and> list_all is_digit s
      then Some (foldl (\<lambda>acc c. acc * 10 + (of_char c - 48)) 0 s) else None)"

definition parse_offset :: "string \<Rightarrow> int option option" where
  "parse_offset s =
     (if s = [] then Some None
      else if length s = 6 \<and> (hd s = CHR ''+'' \<or> hd s = CHR ''-'') \<and> s ! 3 = CHR '':'' then
        (case (parse_digits (take 2 (drop 1 s)), parse_digits (drop 4 s)) of
           (Some hh, Some mm) \<Rightarrow>
             if hh < 24 \<and> mm < 60
             then Some (Some ((if hd s = CHR ''-'' then - 1 else 1)
                              * (int hh * 3600000000 + int mm * 60000000)))
             else None
         | _ \<Rightarrow> None)
      else None)"

definition fromisoformat_basic :: "string \<Rightarrow> datetime option" where
  "fromisoformat_basic s =
     (if 19 \<le> length s \<and> s ! 4 = CHR ''-'' \<and> s ! 7 = CHR ''-'' \<and> s ! 10 = CHR ''T''
         \<and> s ! 13 = CHR '':'' \<and> s ! 16 = CHR '':'' then
        (case (parse_digits (take 4 s), parse_digits (take 2 (drop 5 s)),
               parse_digits (take 2 (drop 8 s)), parse_digits (take 2 (drop 11 s)),
               parse_digits (take 2 (drop 14 s)), parse_digits (take 2 (drop 17 s)),
               parse_offset (drop 19 s)) of
           (Some y, Some mo, Some d, Some h, Some mi, Some sec, Some tz) \<Rightarrow>
             (let dt = \<lparr>year = y, month = mo, day = d, hour = h, minute = mi, second = sec,
                        microsecond = 0, tzinfo = tz\<rparr>
              in if valid_datetime dt then Some dt else None)
         | _ \<Rightarrow> None)
      else None)"

section \<open>The tables of models.py and the database session\<close>

text \<open>
  One record per mapped class, with the columns the modelled code reads or writes (the
  \<open>created_at\<close> and \<open>updated_at\<close> columns, which only the column defaults fill, are left
  out). A nullable column is an \<open>option\<close>. The three communication tables share one row
  type: \<open>UserLeadCommunication\<close> has no \<open>drew_id\<close> and \<open>UserDrewCommunication\<close> no
  \<open>lead_id\<close>.
\<close>

record user =
  user_id :: int
  user_name :: string
  user_email :: string
  user_phone :: "string option"
  user_brokerage_name :: "string option"

record lead =
  lead_id :: int
  lead_user_id :: "int option"
  lead_source :: "string option"
  lead_name :: "string option"
  lead_email :: "string option"
  lead_phone :: "string option"
  lead_status :: "string option"

record integration =
  integration_id :: int
  integration_user_id :: int
  integration_platform_name :: string
  integration_credentials :: "(string \<times> json) list option"

record integration_status =
  istatus_id :: int
  istatus_user_id :: int
  istatus_platform_name :: string
  istatus_status :: string
  istatus_last_checked :: datetime

record call =
  call_pk :: int
  call_user_id :: int
  call_call_time :: datetime
  call_status :: string
  call_duration :: int
  call_call_id :: string

record communication =
  comm_id :: int
  comm_user_id :: int
  comm_drew_id :: "string option"
  comm_lead_id :: "int option"
  comm_type :: string
  comm_status :: string
  comm_details :: json

record database =
  users :: "user list"
  leads :: "lead list"
  integrations :: "integration list"
  integration_statuses :: "integration_status list"
  calls :: "call list"
  drew_lead_communications :: "communication list"
  user_lead_communications :: "communication list"
  user_drew_communications :: "communication list"

text \<open>The next value of an autoincrement primary key, from the keys in use.\<close>

definition next_id :: "int list \<Rightarrow> int" where
  "next_id ids = foldr max ids 0 + 1"

text \<open>
  A session sees its own pending changes (\<open>working\<close>); \<open>commit\<close> makes them the stored
  state (\<open>committed\<close>) and \<open>rollback\<close> drops them. \<open>SessionLocal()\<close> opens a session on
  the stored state.
\<close>

record session =
  committed :: database
  working :: database

definition SessionLocal :: "database \<Rightarrow> session" where
  "SessionLocal db = \<lparr>committed = db, working = db\<rparr>"

definition commit :: "session \<Rightarrow> session" where
  "commit s = s\<lparr>committed := working s\<rparr>"

definition rollback :: "session \<Rightarrow> session" where
  "rollback s = s\<lparr>working := committed s\<rparr>"

text \<open>\<open>query.first()\<close> is the first row that passes the filter; the object it returns is
  that row, so assigning to its attributes changes that row.\<close>

fun update_first :: "('a \<Rightarrow> bool) \<Rightarrow> ('a \<Rightarrow> 'a) \<Rightarrow> 'a list \<Rightarrow> 'a list" where
  "update_first P f [] = []"
| "update_first P f (x # xs) = (if P x then f x # xs else x # update_first P f xs)"

text \<open>
  The database operations of the credential store that can fail, and the environment's
  say on which of them do: the first query, the second query (with the flush before it),
  and the commit.
\<close>

datatype db_op = QueryIntegration | QueryIntegrationStatus | Commit

type_synonym db_faults = "db_op \<Rightarrow> bool"

section \<open>google_integration.py\<close>

text \<open>The \<open>Credentials\<close> object of the OAuth library.\<close>

record credentials =
  token :: "string option"
  refresh_token :: "string option"
  token_uri :: "string option"
  client_id :: "string option"
  client_secret :: "string option"
  scopes :: "string list option"
  expiry :: "datetime option"

text \<open>The dict both writers of the \<open>credentials\<close> column build from a credentials object
  (lines 47-54 and 159-167): seven keys, in this order.\<close>

definition credentials_dict :: "credentials \<Rightarrow> (string \<times> json) list" where
  "credentials_dict c =
     [(''token'', json_opt_str (token c)),
      (''refresh_token'', json_opt_str (refresh_token c)),
      (''token_uri'', json_opt_str (token_uri c)),
      (''client_id'', json_opt_str (client_id c)),
      (''client_secret'', json_opt_str (client_secret c)),
      (''scopes'', (case scopes c of None \<Rightarrow> JNull | Some xs \<Rightarrow> JArr (map JStr xs))),
      (''expiry'', (case expiry c of None \<Rightarrow> JNull | Some e \<Rightarrow> JStr (isoformat e)))]"

subsection \<open>save_integration_to_db\<close>

text \<open>The filter of the four queries on the two tables: the user and the platform.\<close>

definition has_platform :: "int \<Rightarrow> string \<Rightarrow> integration \<Rightarrow> bool" where
  "has_platform uid p i = (integration_user_id i = uid \<and> integration_platform_name i = p)"

definition status_has_platform :: "int \<Rightarrow> string \<Rightarrow> integration_status \<Rightarrow> bool" where
  "status_has_platform uid p st = (istatus_user_id st = uid \<and> istatus_platform_name st = p)"

text \<open>The credential bundles and the status rows stored for a user and a platform.\<close>

definition bundles :: "database \<Rightarrow> int \<Rightarrow> string \<Rightarrow> integration list" where
  "bundles db uid p = filter (has_platform uid p) (integrations db)"

definition statuses :: "database \<Rightarrow> int \<Rightarrow> string \<Rightarrow> integration_status list" where
  "statuses db uid p = filter (status_has_platform uid p) (integration_statuses db)"

text \<open>Lines 58-70: the integration row is created, or the first one found is given the
  new dict.\<close>

definition upsert_integration :: "int \<Rightarrow> (string \<times> json) list \<Rightarrow> database \<Rightarrow> database" where
  "upsert_integration uid d w =
     (case find (has_platform uid ''google_calendar'') (integrations w) of
        None \<Rightarrow>
          w\<lparr>integrations := integrations w @
               [\<lparr>integration_id = next_id (map integration_id (integrations w)),
                 integration_user_id = uid,
                 integration_platform_name = ''google_calendar'',
                 integration_credentials = Some d\<rparr>]\<rparr>
      | Some _ \<Rightarrow>
          w\<lparr>integrations := update_first (has_platform uid ''google_calendar'')
               (\<lambda>i. i\<lparr>integration_credentials := Some d\<rparr>) (integrations w)\<rparr>)"

text \<open>Lines 72-85: the status row is created as \<open>active\<close> (its \<open>last_checked\<close> is the
  column default, the time of the insert), or the first one found is set to \<open>active\<close>
  with \<open>last_checked\<close> the current time.\<close>

definition upsert_status :: "int \<Rightarrow> datetime \<Rightarrow> database \<Rightarrow> database" where
  "upsert_status uid now w =
     (case find (status_has_platform uid ''google_calendar'') (integration_statuses w) of
        None \<Rightarrow>
          w\<lparr>integration_statuses := integration_statuses w @
               [\<lparr>istatus_id = next_id (map istatus_id (integration_statuses w)),
                 istatus_user_id = uid,
                 istatus_platform_name = ''google_calendar'',
                 istatus_status = ''active'',
                 istatus_last_checked = now\<rparr>]\<rparr>
      | Some _ \<Rightarrow>
          w\<lparr>integration_statuses := update_first (status_has_platform uid ''google_calendar'')
               (\<lambda>st. st\<lparr>istatus_status := ''active'', istatus_last_checked := now\<rparr>)
               (integration_statuses w)\<rparr>)"

text \<open>
  The foreign keys of \<open>integrations.user_id\<close> and \<open>integration_status.user_id\<close> to
  \<open>users.id\<close> (models.py, lines 49 and 59): the flush of a new row for a user who has no
  row in \<open>users\<close> fails.
\<close>

definition user_missing :: "database \<Rightarrow> int \<Rightarrow> bool" where
  "user_missing w uid = (find (\<lambda>u. user_id u = uid) (users w) = None)"

text \<open>
  The body of \<open>with db.begin():\<close> (lines 57-85) on a session. A database operation that
  fails raises out of the block with the session as it is then; leaving the block
  commits. A new integration row is flushed before the second query runs, a new status
  row when the block commits.
\<close>

definition save_transaction ::
  "db_faults \<Rightarrow> datetime \<Rightarrow> (string \<times> json) list \<Rightarrow> int \<Rightarrow> session \<Rightarrow> exn \<times> session + session"
where
  "save_transaction faults now d uid s =
     (if faults QueryIntegration then Inl (DatabaseError, s)
      else
        (let added = (find (has_platform uid ''google_calendar'') (integrations (working s))
                      = None);
             s1 = s\<lparr>working := upsert_integration uid d (working s)\<rparr>
         in if added \<and> user_missing (working s1) uid then Inl (DatabaseError, s1)
            else if faults QueryIntegrationStatus then Inl (DatabaseError, s1)
            else
              (let added_status =
                     (find (status_has_platform uid ''google_calendar'')
                        (integration_statuses (working s1)) = None);
                   s2 = s1\<lparr>working := upsert_status uid now (working s1)\<rparr>
               in if added_status \<and> user_missing (working s2) uid
                  then Inl (DatabaseError, s2)
                  else if faults Commit then Inl (DatabaseError, s2)
                  else Inr (commit s2))))"

text \<open>
  \<open>save_integration_to_db(credentials, email, user_id)\<close> on the stored state \<open>db\<close>: the
  exception it raises (\<open>None\<close> when it returns) and the stored state it leaves. The
  \<open>db.commit()\<close> of line 86 finds no transaction open and no pending change (the block
  has committed), so it does nothing; the \<open>except\<close> clause rolls back and re-raises.
\<close>

definition save_integration_to_db ::
  "db_faults \<Rightarrow> datetime \<Rightarrow> credentials \<Rightarrow> string \<Rightarrow> int \<Rightarrow> database \<Rightarrow> exn option \<times> database"
where
  "save_integration_to_db faults now creds email uid db =
     (let d = credentials_dict creds @ [(''email'', JStr email)]
      in case save_transaction faults now d uid (SessionLocal db) of
           Inr s \<Rightarrow> (None, committed (commit s))
         | Inl (e, s) \<Rightarrow> (Some e, committed (rollback s)))"

subsection \<open>refresh_and_save_credentials\<close>

text \<open>
  The OAuth library as the function sees it: whether a credentials object counts as
  expired now (the \<open>expired\<close> property), and what the token endpoint answers to a refresh
  request (\<open>None\<close> when \<open>credentials.refresh\<close> raises). A grant carries the new access
  token and expiry, and a new refresh token when the provider issues one;
  \<open>credentials.refresh\<close> writes them into the object.
\<close>

record grant =
  grant_token :: string
  grant_expiry :: "datetime option"
  grant_refresh_token :: "string option"

record oauth =
  expired :: "credentials \<Rightarrow> bool"
  token_endpoint :: "credentials \<Rightarrow> grant option"

definition apply_grant :: "credentials \<Rightarrow> grant \<Rightarrow> credentials" where
  "apply_grant c g =
     c\<lparr>token := Some (grant_token g),
       expiry := grant_expiry g,
       refresh_token := (case grant_refresh_token g of
                           None \<Rightarrow> refresh_token c | Some r \<Rightarrow> Some r)\<rparr>"

text \<open>What a call did outside its own memory, in order.\<close>

datatype event = TokenRequest | DbRead | DbCommit | DbRollback

text \<open>
  \<open>refresh_and_save_credentials(user_id, credentials, platform_name)\<close>: the value
  returned, the stored state left, and the events. A failing query raises to the outer
  \<open>except\<close> (lines 173-175), a failing commit to the inner one (lines 169-171).
\<close>

definition refresh_and_save_credentials ::
  "oauth \<Rightarrow> db_faults \<Rightarrow> int \<Rightarrow> credentials option \<Rightarrow> string \<Rightarrow> database
   \<Rightarrow> credentials option \<times> database \<times> event list"
where
  "refresh_and_save_credentials lib faults uid credentials platform_name db =
     (case credentials of
        None \<Rightarrow> (None, db, [])
      | Some c \<Rightarrow>
          if \<not> expired lib c then (Some c, db, [])
          else if \<not> truthy_str (refresh_token c) then (None, db, [])
          else
            (case token_endpoint lib c of
               None \<Rightarrow> (None, db, [TokenRequest])
             | Some g \<Rightarrow>
                 (let c' = apply_grant c g; s = SessionLocal db
                  in if faults QueryIntegration then (None, db, [TokenRequest, DbRead])
                     else
                       (case find (has_platform uid platform_name) (integrations (working s)) of
                          None \<Rightarrow> (Some c', db, [TokenRequest, DbRead])
                        | Some _ \<Rightarrow>
                            (let s1 = s\<lparr>working := (working s)\<lparr>integrations :=
                                        update_first (has_platform uid platform_name)
                                          (\<lambda>i. i\<lparr>integration_credentials :=
                                                   Some (credentials_dict c')\<rparr>)
                                          (integrations (working s))\<rparr>\<rparr>
                             in if faults Commit
                                then (Some c', committed (rollback s1),
                                      [TokenRequest, DbRead, DbCommit, DbRollback])
                                else (Some c', committed (commit s1),
                                      [TokenRequest, DbRead, DbCommit]))))))"

subsection \<open>send_email_notification\<close>

text \<open>
  The message the function builds, and the mail library and the Gmail client as it sees
  them: encoding the message (\<open>as_bytes\<close> and the base64 step; \<open>None\<close> when it raises)
  and submitting the encoded message (false when \<open>build\<close> or \<open>execute\<close> raises).
\<close>

record mime_part =
  part_subtype :: string
  part_payload :: string

record mime_message =
  msg_to :: "string option"
  msg_from :: string
  msg_subject :: string
  msg_parts :: "mime_part list"

record mailer =
  encode_message :: "mime_message \<Rightarrow> string option"
  gmail_send :: "credentials option \<Rightarrow> string \<Rightarrow> bool"

text \<open>A value of the \<open>event_details\<close> dict inside an f-string: \<open>None\<close> prints as
  \<open>None\<close>.\<close>

definition fmt :: "string option \<Rightarrow> string" where
  "fmt v = (case v of None \<Rightarrow> ''None'' | Some s \<Rightarrow> s)"

definition get_default :: "(string \<times> string option) list \<Rightarrow> string \<Rightarrow> string \<Rightarrow> string option" where
  "get_default d k dflt = (case map_of d k of None \<Rightarrow> Some dflt | Some v \<Rightarrow> v)"

text \<open>Lines 188-215: the message, or the \<open>KeyError\<close> of \<open>event_details['summary']\<close>.\<close>

definition build_message ::
  "string \<Rightarrow> string option \<Rightarrow> (string \<times> string option) list \<Rightarrow> exn + mime_message"
where
  "build_message sender_email recipient_email event_details =
     (case map_of event_details ''summary'' of
        None \<Rightarrow> Inl KeyError
      | Some summary \<Rightarrow>
          (let description = fmt (get_default event_details ''description''
                                    ''No additional details provided.'');
               text_content =
                 ''Calendar Invitation: '' @ fmt summary @ ''\<newline>\<newline>''
                 @ ''Details:\<newline>'' @ description @ ''\<newline>\<newline>''
                 @ ''Meeting Link: '' @ fmt (get_default event_details ''html_link'' ''N/A'')
                 @ ''\<newline>\<newline>''
                 @ ''This is an automated message. Please do not reply.'';
               html_content =
                 ''<!DOCTYPE html>'' @ ''<html>''
                 @ ''<head><meta charset='' @ [CHR 0x27] @ ''UTF-8'' @ [CHR 0x27] @ ''></head>''
                 @ ''<body style='' @ [CHR 0x27] @ ''font-family: Arial, sans-serif;''
                 @ [CHR 0x27] @ ''>''
                 @ description @ ''</body>'' @ ''</html>''
           in Inr \<lparr>msg_to = recipient_email,
                    msg_from = sender_email,
                    msg_subject = ''Calendar Invitation: '' @ fmt summary,
                    msg_parts = [\<lparr>part_subtype = ''plain'', part_payload = text_content\<rparr>,
                                 \<lparr>part_subtype = ''html'', part_payload = html_content\<rparr>]\<rparr>))"

text \<open>
  \<open>send_email_notification\<close>: the boolean returned, and the messages the Gmail client
  has sent. Every exception of the body ends in the \<open>except\<close> clause of lines 225-227.
\<close>

definition send_email_notification ::
  "mailer \<Rightarrow> credentials option \<Rightarrow> string \<Rightarrow> string option \<Rightarrow> (string \<times> string option) list
   \<Rightarrow> bool \<times> mime_message list"
where
  "send_email_notification lib creds sender_email recipient_email event_details =
     (case build_message sender_email recipient_email event_details of
        Inl e \<Rightarrow> (False, [])
      | Inr message \<Rightarrow>
          (case encode_message lib message of
             None \<Rightarrow> (False, [])
           | Some raw_message \<Rightarrow>
               if gmail_send lib creds raw_message then (True, [message])
               else (False, [])))"

section \<open>routes.py: the lead lookup and the three workflow endpoints\<close>

text \<open>
  The functions of the Python library whose code is not part of the repository are
  parameters of the handlers: \<open>datetime.fromisoformat\<close> and \<open>int\<close> on a string (\<open>None\<close> for
  their \<open>ValueError\<close>), \<open>json.loads\<close> (\<open>None\<close> when it raises), \<open>strftime\<close> and \<open>str\<close> of an
  exception. A request body is a record of optional fields, each of the type the
  handler's docstring gives it; \<open>None\<close> is a field the body does not carry.
\<close>

record python =
  fromisoformat :: "string \<Rightarrow> datetime option"
  strftime :: "datetime \<Rightarrow> string \<Rightarrow> string"
  json_loads :: "string \<Rightarrow> json option"
  int_of_str :: "string \<Rightarrow> int option"
  str_of_exn :: "exn \<Rightarrow> string"

definition quoted :: "string \<Rightarrow> string" where
  "quoted s = [CHR 0x27] @ s @ [CHR 0x27]"

subsection \<open>The lookup\<close>

text \<open>
  SQL \<open>LIKE\<close> as PostgreSQL reads a pattern: \<open>%\<close> stands for any run of characters, \<open>_\<close>
  for any one character, and a backslash makes the pattern character after it stand for
  itself. \<open>ILIKE\<close> is \<open>LIKE\<close> without regard to case.
\<close>

fun like :: "string \<Rightarrow> string \<Rightarrow> bool" where
  "like [] [] = True"
| "like [] (c # cs) = False"
| "like (p # ps) [] = (p = CHR ''%'' \<and> like ps [])"
| "like (p # ps) (c # cs) =
     (if p = CHR ''%'' then like ps (c # cs) \<or> like (p # ps) cs
      else if p = CHR ''_'' then like ps cs
      else if p = CHR 0x5C then (case ps of [] \<Rightarrow> False | q # qs \<Rightarrow> q = c \<and> like qs cs)
      else p = c \<and> like ps cs)"

definition ilike :: "string \<Rightarrow> string \<Rightarrow> bool" where
  "ilike pattern s = like (lower pattern) (lower s)"

text \<open>
  The filter of the three queries: \<open>Lead.user_id == user_id\<close> and
  \<open>Lead.name.ilike(f"%{name}%")\<close>. A lead without a name passes no \<open>ILIKE\<close>.
\<close>

definition name_filter :: "int \<Rightarrow> string \<Rightarrow> lead \<Rightarrow> bool" where
  "name_filter uid name l =
     (lead_user_id l = Some uid
      \<and> (case lead_name l of None \<Rightarrow> False | Some n \<Rightarrow> ilike (''%'' @ name @ ''%'') n))"

definition matching_leads :: "database \<Rightarrow> int \<Rightarrow> string \<Rightarrow> lead list" where
  "matching_leads db uid name = filter (name_filter uid name) (leads db)"

text \<open>One entry of the list a 300 response carries; the key of the id is \<open>lead_id\<close> or
  \<open>contact_id\<close>.\<close>

definition lead_info :: "string \<Rightarrow> lead \<Rightarrow> json" where
  "lead_info id_key l =
     JObj [(id_key, JInt (lead_id l)),
           (''name'', json_opt_str (lead_name l)),
           (''email'', json_opt_str (lead_email l)),
           (''phone'', json_opt_str (lead_phone l)),
           (''status'', json_opt_str (lead_status l)),
           (''source'', json_opt_str (lead_source l))]"

text \<open>\<open>data.get(key, default)\<close> for a string field.\<close>

definition get_or :: "string option \<Rightarrow> string \<Rightarrow> string" where
  "get_or v dflt = (case v of None \<Rightarrow> dflt | Some s \<Rightarrow> s)"

subsection \<open>book_appointment\<close>

record book_data =
  ba_user_id :: "int option"
  ba_lead_name :: "string option"
  ba_start_time :: "string option"
  ba_location :: "string option"
  ba_description :: "string option"
  ba_meeting_type :: "string option"

text \<open>The body of the \<open>try\<close> (lines 252-452): the response returned or the exception
  raised. The background task it schedules runs after the response and is not part of
  it.\<close>

definition book_appointment_body :: "python \<Rightarrow> book_data \<Rightarrow> database \<Rightarrow> exn + response" where
  "book_appointment_body py data db =
     (case (ba_user_id data, ba_lead_name data, ba_start_time data) of
        (Some uid, Some name, Some st) \<Rightarrow>
          (let matching = matching_leads db uid name
           in if matching = [] then
                Inr (JSONResponse 404 (JObj
                  [(''status'', JStr ''error''),
                   (''message'', JStr (''No leads found with the name '' @ quoted name @ ''.'')),
                   (''context_for_llm'',
                      JStr (''I couldn'' @ [CHR 0x27] @ ''t find any leads matching the name ''
                            @ quoted name @ '' in the database.'')),
                   (''suggestion'',
                      JStr (''Consider creating a new lead on the dashboard before ''
                            @ ''scheduling an appointment.''))]))
              else if 1 < length matching then
                Inr (JSONResponse 300 (JObj
                  [(''status'', JStr ''multiple_matches''),
                   (''message'',
                      JStr (''Found '' @ str_nat (length matching)
                            @ '' leads with the name '' @ quoted name @ ''.'')),
                   (''context_for_llm'',
                      JStr ''Please provide additional information to identify the specific lead.''),
                   (''matching_leads'', JArr (map (lead_info ''lead_id'') matching))]))
              else
                (let lead = hd matching
                 in case fromisoformat py (replace_Z st) of
                      None \<Rightarrow> Inl ValueError
                    | Some start_time \<Rightarrow>
                        (case plus_one_hour start_time of
                           None \<Rightarrow> Inl OverflowError
                         | Some end_time \<Rightarrow>
                             Inr (JSONResponse 202 (JObj
                               [(''status'', JStr ''success''),
                                (''message'',
                                   JStr (''Appointment scheduling initiated with ''
                                         @ fmt (lead_name lead))),
                                (''context_for_llm'',
                                   JStr (''I'' @ [CHR 0x27] @ ''ve found the lead ''
                                         @ quoted (fmt (lead_name lead))
                                         @ '' and started scheduling an appointment for ''
                                         @ strftime py start_time ''%B %d, %Y at %I:%M %p''
                                         @ ''. The appointment will be ''
                                         @ (if truthy_str (ba_location data) then ''in-person''
                                            else ''via Google Meet'')
                                         @ ''. Please check your dashboard for notifications.'')),
                                (''lead_details'', JObj
                                   [(''lead_id'', JInt (lead_id lead)),
                                    (''name'', json_opt_str (lead_name lead)),
                                    (''email'', json_opt_str (lead_email lead)),
                                    (''status'', json_opt_str (lead_status lead))]),
                                (''appointment_details'', JObj
                                   [(''start_time'', JStr (isoformat start_time)),
                                    (''end_time'', JStr (isoformat end_time)),
                                    (''location'', JStr (get_or (ba_location data) ''Google Meet'')),
                                    (''description'',
                                       JStr (get_or (ba_description data)
                                               ''Scheduled meeting''))])])))))
      | _ \<Rightarrow>
          Inl (HTTPException 400 (JObj
            [(''status'', JStr ''error''),
             (''message'',
                JStr (''Missing required fields. Please provide user_id, lead_name, ''
                      @ ''and start_time.'')),
             (''required_fields'',
                JArr [JStr ''user_id'', JStr ''lead_name'', JStr ''start_time''])])))"

text \<open>The handler: \<open>except ValueError\<close> (lines 453-462) answers 400, and
  \<open>except Exception\<close> (lines 463-473) answers 500 to every other exception of the body,
  the \<open>HTTPException\<close> of the missing fields among them.\<close>

definition book_appointment :: "python \<Rightarrow> book_data \<Rightarrow> database \<Rightarrow> response" where
  "book_appointment py data db =
     (case book_appointment_body py data db of
        Inr r \<Rightarrow> r
      | Inl e \<Rightarrow>
          if e = ValueError then
            raised_response (HTTPException 400 (JObj
              [(''status'', JStr ''error''),
               (''message'', JStr ''Invalid date/time format''),
               (''context_for_llm'',
                  JStr (''There was an error processing the appointment time: ''
                        @ str_of_exn py e
                        @ ''. Please ensure the time is in ISO format (YYYY-MM-DDTHH:MM:SS).'')),
               (''error_details'', JStr (str_of_exn py e))]))
          else
            raised_response (HTTPException 500 (JObj
              [(''status'', JStr ''error''),
               (''message'', JStr ''Internal server error''),
               (''context_for_llm'',
                  JStr (''An unexpected error occurred while scheduling the appointment. ''
                        @ ''Please try again or contact support.'')),
               (''error_details'', JStr (str_of_exn py e))])))"

subsection \<open>initiate_call\<close>

record call_data =
  ic_user_id :: "int option"
  ic_contact_name :: "string option"
  ic_call_time :: "string option"
  ic_discussion_points :: "string option"

text \<open>The body of the \<open>try\<close> (lines 894-1084). \<open>now\<close> is the naive \<open>datetime.now()\<close> of line
  1054; comparing an aware \<open>call_time\<close> with it is a \<open>TypeError\<close>.\<close>

definition initiate_call_body ::
  "python \<Rightarrow> datetime \<Rightarrow> call_data \<Rightarrow> database \<Rightarrow> exn + response"
where
  "initiate_call_body py now data db =
     (case (ic_user_id data, ic_contact_name data, ic_call_time data) of
        (Some uid, Some name, Some ct) \<Rightarrow>
          (let matching = matching_leads db uid name
           in if matching = [] then
                Inr (JSONResponse 404 (JObj
                  [(''status'', JStr ''error''),
                   (''message'', JStr (''No contacts found with the name '' @ quoted name @ ''.'')),
                   (''context_for_llm'',
                      JStr (''I couldn'' @ [CHR 0x27] @ ''t find any contacts matching the name ''
                            @ quoted name @ '' in the database. ''
                            @ ''Please verify the contact name or add a new contact first.'')),
                   (''suggestion'',
                      JStr ''Consider adding a new contact before initiating a call.'')]))
              else if 1 < length matching then
                Inr (JSONResponse 300 (JObj
                  [(''status'', JStr ''multiple_matches''),
                   (''message'',
                      JStr (''Found '' @ str_nat (length matching)
                            @ '' contacts with the name '' @ quoted name @ ''.'')),
                   (''context_for_llm'',
                      JStr (''I found '' @ str_nat (length matching)
                            @ '' different contacts matching the name '' @ quoted name @ ''. ''
                            @ ''To avoid confusion, please specify which one you would like ''
                            @ ''to call.'')),
                   (''matching_contacts'', JArr (map (lead_info ''contact_id'') matching)),
                   (''suggestion'',
                      JStr (''Please provide additional details to identify the specific ''
                            @ ''contact.''))]))
              else
                (let contact = hd matching
                 in case fromisoformat py (replace_Z ct) of
                      None \<Rightarrow>
                        Inr (JSONResponse 400 (JObj
                          [(''status'', JStr ''error''),
                           (''message'', JStr ''Invalid date/time format for call_time.''),
                           (''context_for_llm'',
                              JStr (''The provided call_time is not in the correct ISO format ''
                                    @ ''(YYYY-MM-DDTHH:MM:SS). ''
                                    @ ''Please provide a valid call time.'')),
                           (''error_details'', JStr (str_of_exn py ValueError))]))
                    | Some call_time \<Rightarrow>
                        (case datetime_le call_time now of
                           None \<Rightarrow> Inl TypeError
                         | Some due \<Rightarrow>
                             Inr (JSONResponse 202 (JObj
                               [(''status'', JStr ''success''),
                                (''message'',
                                   JStr (if due
                                         then ''I'' @ [CHR 0x27] @ ''m calling ''
                                              @ fmt (lead_name contact) @ '' now.''
                                         else ''Call scheduled with '' @ fmt (lead_name contact)
                                              @ '' for ''
                                              @ strftime py call_time ''%B %d, %Y at %I:%M %p''
                                              @ ''.'')),
                                (''context_for_llm'',
                                   JStr (''I found the contact '' @ quoted (fmt (lead_name contact))
                                         @ '' and initiated the call. ''
                                         @ ''The call is ''
                                         @ (if due then ''starting immediately'' else ''scheduled'')
                                         @ ''; ''
                                         @ ''the process is running in the background and will ''
                                         @ ''update once completed.'')),
                                (''contact_details'', JObj
                                   [(''contact_id'', JInt (lead_id contact)),
                                    (''name'', json_opt_str (lead_name contact)),
                                    (''email'', json_opt_str (lead_email contact)),
                                    (''phone'', json_opt_str (lead_phone contact)),
                                    (''status'', json_opt_str (lead_status contact))]),
                                (''call_details'', JObj
                                   [(''call_time'', JStr (isoformat call_time)),
                                    (''discussion_points'',
                                       JStr (get_or (ic_discussion_points data) ''''))])])))))
      | _ \<Rightarrow>
          Inr (JSONResponse 400 (JObj
            [(''status'', JStr ''error''),
             (''message'',
                JStr (''Missing required fields. Please provide user_id, contact_name, ''
                      @ ''and call_time.'')),
             (''required_fields'',
                JArr [JStr ''user_id'', JStr ''contact_name'', JStr ''call_time''])])))"

definition initiate_call :: "python \<Rightarrow> datetime \<Rightarrow> call_data \<Rightarrow> database \<Rightarrow> response" where
  "initiate_call py now data db =
     (case initiate_call_body py now data db of
        Inr r \<Rightarrow> r
      | Inl e \<Rightarrow>
          raised_response (HTTPException 500 (JObj
            [(''status'', JStr ''error''),
             (''message'', JStr ''Internal server error.''),
             (''context_for_llm'',
                JStr (''I encountered an unexpected error while trying to initiate the call. ''
                      @ ''Please try again or contact support if the issue persists.'')),
             (''error_details'', JStr (str_of_exn py e))])))"

subsection \<open>send_message\<close>

record message_data =
  sm_user_id :: "int option"
  sm_lead_name :: "string option"
  sm_message_type :: "string option"
  sm_message_content :: "string option"

text \<open>The body of the \<open>try\<close> (lines 1121-1289); nothing in it raises on a body of the
  documented types, and the handler's \<open>except\<close> (lines 1291-1300) is kept for the
  shape.\<close>

definition send_message_body :: "python \<Rightarrow> message_data \<Rightarrow> database \<Rightarrow> exn + response" where
  "send_message_body py data db =
     (case (sm_user_id data, sm_lead_name data, sm_message_type data, sm_message_content data) of
        (Some uid, Some name, Some mtype, Some mcontent) \<Rightarrow>
          if upper mtype \<notin> set [''SMS'', ''EMAIL''] then
            Inr (JSONResponse 400 (JObj
              [(''status'', JStr ''error''),
               (''message'',
                  JStr (''Invalid message_type. Allowed values are '' @ quoted ''SMS''
                        @ '' or '' @ quoted ''Email'' @ ''.''))]))
          else
            (let matching = matching_leads db uid name
             in if matching = [] then
                  Inr (JSONResponse 404 (JObj
                    [(''status'', JStr ''error''),
                     (''message'', JStr (''No leads found with the name '' @ quoted name @ ''.'')),
                     (''context_for_llm'',
                        JStr (''I couldn'' @ [CHR 0x27] @ ''t find any leads matching the name ''
                              @ quoted name @ '' in the database. ''
                              @ ''Please verify the lead name or create a new lead first.'')),
                     (''suggestion'',
                        JStr ''Consider creating a new lead before sending a message.'')]))
                else if 1 < length matching then
                  Inr (JSONResponse 300 (JObj
                    [(''status'', JStr ''multiple_matches''),
                     (''message'',
                        JStr (''Found '' @ str_nat (length matching)
                              @ '' leads with the name '' @ quoted name @ ''.'')),
                     (''context_for_llm'',
                        JStr (''I found multiple leads matching the name '' @ quoted name
                              @ ''. Please specify which lead to send the message to.'')),
                     (''matching_leads'', JArr (map (lead_info ''lead_id'') matching)),
                     (''suggestion'',
                        JStr (''Provide additional information to uniquely identify the ''
                              @ ''target lead.''))]))
                else
                  (let lead = hd matching
                   in Inr (JSONResponse 202 (JObj
                        [(''status'', JStr ''success''),
                         (''message'',
                            JStr (''Message sending initiated to '' @ fmt (lead_name lead)
                                  @ ''.'')),
                         (''context_for_llm'',
                            JStr (''I found the lead '' @ quoted (fmt (lead_name lead))
                                  @ '' and initiated sending a '' @ upper mtype @ '' message. ''
                                  @ ''The process is running in the background and will ''
                                  @ ''update once completed.'')),
                         (''lead_details'', JObj
                            [(''lead_id'', JInt (lead_id lead)),
                             (''name'', json_opt_str (lead_name lead)),
                             (''email'', json_opt_str (lead_email lead)),
                             (''phone'', json_opt_str (lead_phone lead)),
                             (''status'', json_opt_str (lead_status lead))]),
                         (''message_details'', JObj
                            [(''message_type'', JStr (upper mtype)),
                             (''message_content'', JStr mcontent)])]))))
      | _ \<Rightarrow>
          Inr (JSONResponse 400 (JObj
            [(''status'', JStr ''error''),
             (''message'',
                JStr (''Missing required fields. Please provide user_id, lead_name, ''
                      @ ''message_type, and message_content.'')),
             (''required_fields'',
                JArr [JStr ''user_id'', JStr ''lead_name'', JStr ''message_type'',
                      JStr ''message_content''])])))"

definition send_message :: "python \<Rightarrow> message_data \<Rightarrow> database \<Rightarrow> response" where
  "send_message py data db =
     (case send_message_body py data db of
        Inr r \<Rightarrow> r
      | Inl e \<Rightarrow>
          raised_response (HTTPException 500 (JObj
            [(''status'', JStr ''error''),
             (''message'', JStr ''Internal server error.''),
             (''error_details'', JStr (str_of_exn py e))])))"

text \<open>A member of a JSON object, and the value at the end of a path of keys.\<close>

definition member :: "json \<Rightarrow> string \<Rightarrow> json option" where
  "member j k = (case j of JObj kv \<Rightarrow> map_of kv k | _ \<Rightarrow> None)"

fun at_path :: "json \<Rightarrow> string list \<Rightarrow> json option" where
  "at_path j [] = Some j"
| "at_path j (k # ks) = (case member j k of None \<Rightarrow> None | Some v \<Rightarrow> at_path v ks)"

text \<open>A name without a character that \<open>LIKE\<close> reads as a wildcard or as the escape.\<close>

definition no_wildcards :: "string \<Rightarrow> bool" where
  "no_wildcards s = list_all (\<lambda>c. c \<noteq> CHR ''%'' \<and> c \<noteq> CHR ''_'' \<and> c \<noteq> CHR 0x5C) s"

section \<open>routes.py: the OAuth callback and save_communication\<close>

subsection \<open>google_callback\<close>

text \<open>Python's truth test on a JSON value, and \<open>int(v)\<close> on one.\<close>

definition truthy :: "json \<Rightarrow> bool" where
  "truthy j =
     (case j of
        JNull \<Rightarrow> False
      | JBool b \<Rightarrow> b
      | JInt n \<Rightarrow> n \<noteq> 0
      | JStr s \<Rightarrow> s \<noteq> []
      | JArr xs \<Rightarrow> xs \<noteq> []
      | JObj kv \<Rightarrow> kv \<noteq> [])"

definition py_int :: "python \<Rightarrow> json \<Rightarrow> exn + int" where
  "py_int py j =
     (case j of
        JInt n \<Rightarrow> Inr n
      | JBool b \<Rightarrow> Inr (if b then 1 else 0)
      | JStr s \<Rightarrow> (case int_of_str py s of None \<Rightarrow> Inl ValueError | Some n \<Rightarrow> Inr n)
      | _ \<Rightarrow> Inl TypeError)"

text \<open>
  The query parameters of the callback, and the OAuth flow as the handler sees it: the
  credentials \<open>fetch_token\<close> obtains for the request (\<open>None\<close> when it raises), the email
  of the account as the identity endpoint gives it (\<open>None\<close> when the call raises,
  \<open>Some None\<close> when the answer has no email), and the text of the clock reading that
  goes into the placeholder address. \<open>create_flow\<close> and \<open>build\<close> are taken to succeed.
\<close>

record callback_request =
  query_state :: "string option"
  query_code :: "string option"

record google_flow =
  fetch_token :: "callback_request \<Rightarrow> credentials option"
  userinfo_email :: "credentials \<Rightarrow> string option option"
  now_timestamp :: string

text \<open>Lines 88-95: the email of the account, or the placeholder when the call raises or
  gives no email (the \<open>HTTPException\<close> of line 92 is caught by line 93).\<close>

definition account_email :: "google_flow \<Rightarrow> credentials \<Rightarrow> string" where
  "account_email flow c =
     (case userinfo_email flow c of
        Some (Some e) \<Rightarrow> if e \<noteq> [] then e else ''user_'' @ now_timestamp flow
      | _ \<Rightarrow> ''user_'' @ now_timestamp flow)"

text \<open>The body of the \<open>try\<close> (lines 65-99): the response returned or the exception
  raised, and the stored state.\<close>

definition google_callback_body ::
  "python \<Rightarrow> google_flow \<Rightarrow> db_faults \<Rightarrow> datetime \<Rightarrow> callback_request \<Rightarrow> database
   \<Rightarrow> (exn + response) \<times> database"
where
  "google_callback_body py flow faults now req db =
     (case json_loads py (get_or (query_state req) ''{}'') of
        None \<Rightarrow> (Inl ValueError, db)
      | Some state_data \<Rightarrow>
          (case state_data of
             JObj kv \<Rightarrow>
               (let user_id = map_of kv ''user_id''
                in if \<not> (case user_id of None \<Rightarrow> False | Some v \<Rightarrow> truthy v) then
                     (Inl (HTTPException 400 (JStr ''No user ID provided'')), db)
                   else if \<not> truthy_str (query_code req) then
                     (Inl (HTTPException 400 (JStr ''No authorization code received'')), db)
                   else
                     (case fetch_token flow req of
                        None \<Rightarrow> (Inl TransportError, db)
                      | Some credentials \<Rightarrow>
                          if \<not> truthy_str (refresh_token credentials) then
                            (Inr (JSONResponse 400 (JObj
                               [(''error'',
                                 JStr (''No refresh token received. Please revoke ''
                                       @ ''application access and try again.''))])), db)
                          else
                            (let email = account_email flow credentials
                             in case py_int py (case user_id of None \<Rightarrow> JNull | Some v \<Rightarrow> v) of
                                  Inl e \<Rightarrow> (Inl e, db)
                                | Inr uid \<Rightarrow>
                                    (case save_integration_to_db faults now credentials email
                                            uid db of
                                       (Some e, db') \<Rightarrow> (Inl e, db')
                                     | (None, db') \<Rightarrow>
                                         (Inr (JSONResponse 200 (JObj
                                            [(''status'', JStr ''success''),
                                             (''message'',
                                              JStr ''Successfully connected to Google Calendar''),
                                             (''user_id'',
                                              (case user_id of None \<Rightarrow> JNull
                                               | Some v \<Rightarrow> v))])), db')))))
           | _ \<Rightarrow> (Inl AttributeError, db)))"

text \<open>The handler: \<open>except Exception\<close> (lines 100-102) turns every exception of the body,
  the two \<open>HTTPException\<close>s of lines 70 and 73 among them, into a 500.\<close>

definition google_callback ::
  "python \<Rightarrow> google_flow \<Rightarrow> db_faults \<Rightarrow> datetime \<Rightarrow> callback_request \<Rightarrow> database
   \<Rightarrow> response \<times> database"
where
  "google_callback py flow faults now req db =
     (case google_callback_body py flow faults now req db of
        (Inr r, db') \<Rightarrow> (r, db')
      | (Inl e, db') \<Rightarrow>
          (raised_response (HTTPException 500 (JStr (str_of_exn py e))), db'))"

subsection \<open>save_communication\<close>

record comm_data =
  sc_user_id :: "int option"
  sc_type :: "string option"
  sc_status :: "string option"
  sc_details :: "json option"
  sc_lead_id :: "int option"
  sc_drew_id :: "string option"
  sc_duration :: "int option"
  sc_call_id :: "string option"
  sc_call_time :: "string option"

definition truthy_int :: "int option \<Rightarrow> bool" where
  "truthy_int v = (case v of None \<Rightarrow> False | Some n \<Rightarrow> n \<noteq> 0)"

datatype comm_table = DrewLead | UserLead | UserDrew

definition comm_rows :: "comm_table \<Rightarrow> database \<Rightarrow> communication list" where
  "comm_rows t db =
     (case t of
        DrewLead \<Rightarrow> drew_lead_communications db
      | UserLead \<Rightarrow> user_lead_communications db
      | UserDrew \<Rightarrow> user_drew_communications db)"

text \<open>\<open>db.add(communication)\<close>: the row joins the pending state of its table, with the
  next key of the table.\<close>

definition add_communication :: "comm_table \<Rightarrow> communication \<Rightarrow> database \<Rightarrow> database" where
  "add_communication t c db =
     (let row = c\<lparr>comm_id := next_id (map comm_id (comm_rows t db))\<rparr>
      in case t of
           DrewLead \<Rightarrow> db\<lparr>drew_lead_communications := drew_lead_communications db @ [row]\<rparr>
         | UserLead \<Rightarrow> db\<lparr>user_lead_communications := user_lead_communications db @ [row]\<rparr>
         | UserDrew \<Rightarrow> db\<lparr>user_drew_communications := user_drew_communications db @ [row]\<rparr>)"

text \<open>Lines 569-595: the class of the communication by the truth of \<open>lead_id\<close> and
  \<open>drew_id\<close>, or \<open>None\<close> when both are false.\<close>

definition new_communication ::
  "int \<Rightarrow> string \<Rightarrow> string \<Rightarrow> json \<Rightarrow> comm_data \<Rightarrow> (comm_table \<times> communication) option"
where
  "new_communication uid ty st details data =
     (let c = \<lparr>comm_id = 0, comm_user_id = uid, comm_drew_id = None, comm_lead_id = None,
                comm_type = ty, comm_status = st, comm_details = details\<rparr>
      in if truthy_int (sc_lead_id data) \<and> truthy_str (sc_drew_id data) then
           Some (DrewLead, c\<lparr>comm_lead_id := sc_lead_id data, comm_drew_id := sc_drew_id data\<rparr>)
         else if truthy_int (sc_lead_id data) then
           Some (UserLead, c\<lparr>comm_lead_id := sc_lead_id data\<rparr>)
         else if truthy_str (sc_drew_id data) then
           Some (UserDrew, c\<lparr>comm_drew_id := sc_drew_id data\<rparr>)
         else None)"

text \<open>The foreign key of \<open>lead_id\<close>: a flush of a communication whose lead does not
  exist fails.\<close>

definition lead_exists :: "database \<Rightarrow> communication \<Rightarrow> bool" where
  "lead_exists db c =
     (case comm_lead_id c of None \<Rightarrow> True | Some l \<Rightarrow> l \<in> set (map lead_id (leads db)))"

text \<open>
  The body of the \<open>try\<close> (lines 557-625) on the request's session: the response and the
  session after the commit, or the exception raised and the session as it is then.
  \<open>now\<close> is \<open>datetime.utcnow()\<close>.
\<close>

definition save_communication_body ::
  "python \<Rightarrow> datetime \<Rightarrow> comm_data \<Rightarrow> session \<Rightarrow> exn \<times> session + response \<times> session"
where
  "save_communication_body py now data s =
     (case (sc_user_id data, sc_type data, sc_status data, sc_details data) of
        (Some uid, Some ty, Some st, Some details) \<Rightarrow>
          if find (\<lambda>u. user_id u = uid) (users (working s)) = None then
            Inl (HTTPException 404 (JStr ''User not found''), s)
          else
            (case new_communication uid ty st details data of
               None \<Rightarrow>
                 Inl (HTTPException 400 (JStr ''Either lead_id or drew_id must be provided''), s)
             | Some (t, c) \<Rightarrow>
                 (let s1 = s\<lparr>working := add_communication t c (working s)\<rparr>;
                      communication_id = next_id (map comm_id (comm_rows t (working s)))
                  in if upper ty = ''CALL'' then
                       (case (sc_duration data, sc_call_id data) of
                          (Some duration, Some cid) \<Rightarrow>
                            (case (if truthy_str (sc_call_time data)
                                   then fromisoformat py (replace_Z (get_or (sc_call_time data) ''''))
                                   else Some now) of
                               None \<Rightarrow> Inl (ValueError, s1)
                             | Some call_time \<Rightarrow>
                                 (let pk = next_id (map call_pk (calls (working s1)));
                                      s2 = s1\<lparr>working := (working s1)\<lparr>calls :=
                                             calls (working s1) @
                                               [\<lparr>call_pk = pk, call_user_id = uid,
                                                 call_call_time = call_time, call_status = st,
                                                 call_duration = duration,
                                                 call_call_id = cid\<rparr>]\<rparr>\<rparr>
                                  in if \<not> lead_exists (working s2) c then Inl (DatabaseError, s2)
                                     else
                                       Inr (JSONResponse 201 (JObj
                                              [(''status'', JStr ''success''),
                                               (''communication_id'', JInt communication_id),
                                               (''call_id'', JInt pk)]),
                                            commit s2)))
                        | _ \<Rightarrow>
                            Inl (HTTPException 400
                                   (JStr ''Duration and call_id are required for call records''),
                                 s1))
                     else if \<not> lead_exists (working s1) c then Inl (DatabaseError, s1)
                     else
                       Inr (JSONResponse 201 (JObj
                              [(''status'', JStr ''success''),
                               (''communication_id'', JInt communication_id)]),
                            commit s1)))
      | _ \<Rightarrow>
          Inl (HTTPException 400 (JObj
                 [(''error'', JStr ''Missing required fields''),
                  (''required_fields'',
                   JArr [JStr ''user_id'', JStr ''type'', JStr ''status'', JStr ''details''])]),
               s))"

text \<open>The handler: \<open>except Exception\<close> (lines 626-631) rolls the session back and
  answers 500 to every exception of the body. The result is the response and the
  stored state.\<close>

definition save_communication ::
  "python \<Rightarrow> datetime \<Rightarrow> comm_data \<Rightarrow> database \<Rightarrow> response \<times> database"
where
  "save_communication py now data db =
     (case save_communication_body py now data (SessionLocal db) of
        Inr (r, s) \<Rightarrow> (r, committed s)
      | Inl (e, s) \<Rightarrow>
          (raised_response (HTTPException 500 (JObj
             [(''error'', JStr ''Server error''),
              (''details'', JStr (str_of_exn py e))])),
           committed (rollback s)))"

text \<open>The communication rows and the call rows a stored state holds.\<close>

definition communication_rows :: "database \<Rightarrow> communication list" where
  "communication_rows db =
     drew_lead_communications db @ user_lead_communications db @ user_drew_communications db"

section \<open>Example values\<close>

text \<open>Concrete inputs for the instances below.\<close>

definition no_faults :: db_faults where
  "no_faults = (\<lambda>_. False)"

definition commit_fails :: db_faults where
  "commit_fails = (\<lambda>op. op = Commit)"

definition noon :: datetime where
  "noon = \<lparr>year = 2024, month = 1, day = 15, hour = 12, minute = 0, second = 0,
            microsecond = 0, tzinfo = None\<rparr>"

definition stale_credentials :: credentials where
  "stale_credentials =
     \<lparr>token = Some ''old-token'', refresh_token = Some ''refresh-1'',
      token_uri = Some ''https://oauth2.googleapis.com/token'',
      client_id = Some ''client'', client_secret = Some ''secret'',
      scopes = Some [''openid''], expiry = Some noon\<rparr>"

definition new_grant :: grant where
  "new_grant = \<lparr>grant_token = ''new-token'', grant_expiry = None, grant_refresh_token = None\<rparr>"

definition refreshing :: oauth where
  "refreshing = \<lparr>expired = (\<lambda>_. True), token_endpoint = (\<lambda>_. Some new_grant)\<rparr>"

definition fresh :: oauth where
  "fresh = \<lparr>expired = (\<lambda>_. False), token_endpoint = (\<lambda>_. None)\<rparr>"

definition empty_db :: database where
  "empty_db = \<lparr>users = [], leads = [], integrations = [], integration_statuses = [],
                calls = [], drew_lead_communications = [], user_lead_communications = [],
                user_drew_communications = []\<rparr>"

text \<open>User 1, the stored state with that user and nothing else, and the stored state
  after user 1 has connected the account \<open>agent@example.com\<close>.\<close>

definition agent :: user where
  "agent = \<lparr>user_id = 1, user_name = ''Alex Agent'', user_email = ''agent@example.com'',
             user_phone = None, user_brokerage_name = Some ''Acme Realty''\<rparr>"

definition signed_up_db :: database where
  "signed_up_db = empty_db\<lparr>users := [agent]\<rparr>"

definition connected_db :: database where
  "connected_db =
     signed_up_db\<lparr>integrations :=
                 [\<lparr>integration_id = 1, integration_user_id = 1,
                   integration_platform_name = ''google_calendar'',
                   integration_credentials =
                     Some [(''token'', JStr ''old-token''),
                           (''refresh_token'', JStr ''refresh-1''),
                           (''token_uri'', JStr ''https://oauth2.googleapis.com/token''),
                           (''client_id'', JStr ''client''),
                           (''client_secret'', JStr ''secret''),
                           (''scopes'', JArr [JStr ''openid'']),
                           (''expiry'', JStr ''2024-01-15T12:00:00''),
                           (''email'', JStr ''agent@example.com'')]\<rparr>],
               integration_statuses :=
                 [\<lparr>istatus_id = 1, istatus_user_id = 1,
                   istatus_platform_name = ''google_calendar'',
                   istatus_status = ''active'', istatus_last_checked = noon\<rparr>]\<rparr>"

text \<open>The message \<open>build_message\<close> makes for a meeting with Smith.\<close>

definition the_message :: mime_message where
  "the_message =
     \<lparr>msg_to = Some ''smith@example.com'',
      msg_from = ''agent@example.com'',
      msg_subject = ''Calendar Invitation: Meeting with Smith'',
      msg_parts =
        [\<lparr>part_subtype = ''plain'',
          part_payload =
            ''Calendar Invitation: Meeting with Smith\<newline>\<newline>''
            @ ''Details:\<newline>No additional details provided.\<newline>\<newline>''
            @ ''Meeting Link: N/A\<newline>\<newline>''
            @ ''This is an automated message. Please do not reply.''\<rparr>,
         \<lparr>part_subtype = ''html'',
          part_payload =
            ''<!DOCTYPE html><html><head><meta charset='' @ [CHR 0x27] @ ''UTF-8'' @ [CHR 0x27]
            @ ''></head><body style='' @ [CHR 0x27] @ ''font-family: Arial, sans-serif;''
            @ [CHR 0x27] @ ''>No additional details provided.</body></html>''\<rparr>]\<rparr>"

text \<open>
  A Python library for the examples: \<open>fromisoformat_basic\<close> as the parser and decimal
  digits as \<open>int\<close>; \<open>json.loads\<close> knows the empty object and the state that the
  authorization link of user 1 carries; \<open>strftime\<close> and \<open>str\<close> of an exception give fixed
  texts, which no example depends on.
\<close>

definition state_of_user_1 :: string where
  "state_of_user_1 =
     ''{'' @ [CHR 0x22] @ ''user_id'' @ [CHR 0x22] @ '': '' @ [CHR 0x22] @ ''1'' @ [CHR 0x22]
     @ '', '' @ [CHR 0x22] @ ''prompt'' @ [CHR 0x22] @ '': '' @ [CHR 0x22] @ ''consent''
     @ [CHR 0x22] @ ''}''"

definition cpython :: python where
  "cpython = \<lparr>fromisoformat = fromisoformat_basic,
          strftime = (\<lambda>d f. f),
          json_loads = (\<lambda>s. if s = ''{}'' then Some (JObj [])
                             else if s = state_of_user_1
                             then Some (JObj [(''user_id'', JStr ''1''),
                                              (''prompt'', JStr ''consent'')])
                             else None),
          int_of_str = (\<lambda>s. map_option int (parse_digits s)),
          str_of_exn = (\<lambda>e. ''error'')\<rparr>"

text \<open>An OAuth flow that grants the given credentials and knows the account's email.\<close>

definition granting :: "credentials \<Rightarrow> google_flow" where
  "granting c = \<lparr>fetch_token = (\<lambda>_. Some c),
                  userinfo_email = (\<lambda>_. Some (Some ''agent@example.com'')),
                  now_timestamp = ''1705320000.0''\<rparr>"

text \<open>The leads of user 1: John Smith (5), Jane Smith (6) and Ann Jones (7).\<close>

definition john_smith :: lead where
  "john_smith = \<lparr>lead_id = 5, lead_user_id = Some 1, lead_source = Some ''web'',
                  lead_name = Some ''John Smith'', lead_email = Some ''john@example.com'',
                  lead_phone = Some ''+15550001'', lead_status = Some ''new''\<rparr>"

definition jane_smith :: lead where
  "jane_smith = \<lparr>lead_id = 6, lead_user_id = Some 1, lead_source = Some ''referral'',
                  lead_name = Some ''Jane Smith'', lead_email = Some ''jane@example.com'',
                  lead_phone = None, lead_status = Some ''contacted''\<rparr>"

definition ann_jones :: lead where
  "ann_jones = \<lparr>lead_id = 7, lead_user_id = Some 1, lead_source = None,
                 lead_name = Some ''Ann Jones'', lead_email = Some ''ann@example.com'',
                 lead_phone = None, lead_status = None\<rparr>"

definition crm_db :: database where
  "crm_db = empty_db\<lparr>users := [agent], leads := [john_smith, jane_smith, ann_jones]\<rparr>"

text \<open>A call record for lead 5 that carries a \<open>call_id\<close> and no \<open>duration\<close>.\<close>

definition call_without_duration :: comm_data where
  "call_without_duration =
     \<lparr>sc_user_id = Some 1, sc_type = Some ''CALL'', sc_status = Some ''COMPLETED'',
      sc_details = Some (JObj []), sc_lead_id = Some 5, sc_drew_id = None,
      sc_duration = None, sc_call_id = Some ''call_1'', sc_call_time = None\<rparr>"

text \<open>A booking with John for 14:00 UTC on 15 January 2024, and the two datetimes of
  its response.\<close>

definition booking :: book_data where
  "booking = \<lparr>ba_user_id = Some 1, ba_lead_name = Some ''John'',
               ba_start_time = Some ''2024-01-15T14:00:00Z'', ba_location = None,
               ba_description = None, ba_meeting_type = None\<rparr>"

definition two_pm_utc :: datetime where
  "two_pm_utc = \<lparr>year = 2024, month = 1, day = 15, hour = 14, minute = 0, second = 0,
                  microsecond = 0, tzinfo = Some 0\<rparr>"

definition three_pm_utc :: datetime where
  "three_pm_utc = \<lparr>year = 2024, month = 1, day = 15, hour = 15, minute = 0, second = 0,
                    microsecond = 0, tzinfo = Some 0\<rparr>"

text \<open>More requests of user 1: a booking with John for \<open>tomorrow\<close>, a call to John at a
  time without offset, a call to a name no lead has, an SMS to the Smiths, and a fax to
  John.\<close>

definition booking_tomorrow :: book_data where
  "booking_tomorrow = booking\<lparr>ba_start_time := Some ''tomorrow''\<rparr>"

definition call_john :: call_data where
  "call_john = \<lparr>ic_user_id = Some 1, ic_contact_name = Some ''John'',
                 ic_call_time = Some ''2024-01-15T14:00:00'', ic_discussion_points = None\<rparr>"

definition call_zed :: call_data where
  "call_zed = call_john\<lparr>ic_contact_name := Some ''Zed''\<rparr>"

definition sms_to_smith :: message_data where
  "sms_to_smith = \<lparr>sm_user_id = Some 1, sm_lead_name = Some ''smith'',
                    sm_message_type = Some ''sms'', sm_message_content = Some ''Hello''\<rparr>"

definition fax_to_john :: message_data where
  "fax_to_john = \<lparr>sm_user_id = Some 1, sm_lead_name = Some ''John'',
                   sm_message_type = Some ''FAX'', sm_message_content = Some ''Hello''\<rparr>"

text \<open>The booking with John, its start time written without an offset.\<close>

definition booking_naive :: book_data where
  "booking_naive = booking\<lparr>ba_start_time := Some ''2024-01-15T14:00:00''\<rparr>"

section \<open>Properties of the string primitives\<close>

lemmas clean_defs = clean_generated_email_def strip_def lstrip_def rstrip_def startswith_def
  endswith_def splitlines_def lower_def lower_char_def isspace_def is_linebreak_def Let_def

lemma dropWhile_id: "xs = [] \<or> \<not> P (hd xs) \<Longrightarrow> dropWhile P xs = xs"
  by (cases xs) auto

lemma rstrip_prefix: "\<exists>ws. s = rstrip s @ ws"
proof -
  have "rev s = takeWhile isspace (rev s) @ dropWhile isspace (rev s)" by simp
  then have "s = rev (dropWhile isspace (rev s)) @ rev (takeWhile isspace (rev s))"
    by (metis rev_append rev_rev_ident)
  then show ?thesis unfolding rstrip_def by blast
qed

lemma rstrip_rstrip: "rstrip (rstrip s) = rstrip s"
  unfolding rstrip_def by simp

lemma lstrip_rstrip_lstrip: "lstrip (rstrip (lstrip s)) = rstrip (lstrip s)"
proof -
  let ?u = "lstrip s"
  obtain ws where u: "?u = rstrip ?u @ ws" using rstrip_prefix by blast
  show ?thesis
  proof (cases "rstrip ?u = []")
    case True then show ?thesis by (simp add: lstrip_def)
  next
    case False
    then have "?u \<noteq> []" using u by auto
    then have "\<not> isspace (hd ?u)" unfolding lstrip_def by (rule hd_dropWhile)
    moreover have "hd ?u = hd (rstrip ?u)" using u False by (metis hd_append2)
    ultimately show ?thesis unfolding lstrip_def[of "rstrip _"] by (intro dropWhile_id) simp
  qed
qed

lemma strip_strip: "strip (strip s) = strip s"
  unfolding strip_def by (simp add: lstrip_rstrip_lstrip rstrip_rstrip)

lemma clean_stripped: "strip (clean_generated_email s) = clean_generated_email s"
  by (simp add: clean_generated_email_def Let_def strip_strip)

lemma clean_fixed:
  assumes "strip r = r" "\<not> fenced r" "\<not> html_led r"
  shows "clean_generated_email r = r"
  using assms by (auto simp add: clean_generated_email_def Let_def fenced_def html_led_def)

section \<open>Properties of dates and times\<close>

lemma month_cases:
  "1 \<le> m \<Longrightarrow> m < 12 \<Longrightarrow> m \<in> {1, 2, 3, 4, 5, 6, 7, 8, 9, 10, 11 :: nat}"
proof -
  assume "1 \<le> m" "m < 12"
  then have "m \<in> set [1..<12]" by simp
  then show ?thesis by (auto simp add: upt_rec)
qed

lemma days_before_month_Suc:
  "1 \<le> m \<Longrightarrow> m < 12 \<Longrightarrow>
   days_before_month y (Suc m) = days_before_month y m + days_in_month y m"
proof -
  assume "1 \<le> m" "m < 12"
  then have "m \<in> {1, 2, 3, 4, 5, 6, 7, 8, 9, 10, 11 :: nat}" by (rule month_cases)
  then show ?thesis
    by (elim insertE emptyE) (simp_all add: days_before_month_def days_in_month_def)
qed

lemma year_step:
  fixes a b c p q r k :: nat
  assumes "b \<le> a" "q \<le> p"
  shows "Suc k * 365 + (a + p) - (b + q) + (c + r) = k * 365 + a - b + c + (365 + p + r - q)"
  using assms by simp

lemma days_before_year_Suc:
  "1 \<le> y \<Longrightarrow> days_before_year (Suc y) = days_before_year y + (if is_leap y then 366 else 365)"
proof -
  assume "1 \<le> y"
  then obtain z where y: "y = Suc z" by (cases y) auto
  define p :: nat where "p = (if Suc z mod 4 = 0 then 1 else 0)"
  define q :: nat where "q = (if Suc z mod 100 = 0 then 1 else 0)"
  define r :: nat where "r = (if Suc z mod 400 = 0 then 1 else 0)"
  have le: "z div 100 \<le> z div 4" by (rule div_le_mono2) simp_all
  have m1: "Suc z mod 100 = 0 \<Longrightarrow> Suc z mod 4 = 0"
    using dvd_trans [of 4 100 "Suc z"] by (simp add: mod_eq_0_iff_dvd)
  have m2: "Suc z mod 400 = 0 \<Longrightarrow> Suc z mod 100 = 0"
    using dvd_trans [of 100 400 "Suc z"] by (simp add: mod_eq_0_iff_dvd)
  have qp: "q \<le> p" using m1 by (simp add: p_def q_def)
  have d: "Suc z div 4 = z div 4 + p" "Suc z div 100 = z div 100 + q"
    "Suc z div 400 = z div 400 + r"
    by (simp_all add: div_Suc p_def q_def r_def)
  have "days_before_year (Suc y)
        = Suc z * 365 + (z div 4 + p) - (z div 100 + q) + (z div 400 + r)"
    by (simp only: days_before_year_def y diff_Suc_1 d)
  also have "\<dots> = z * 365 + z div 4 - z div 100 + z div 400 + (365 + p + r - q)"
    using le qp by (rule year_step)
  also have "\<dots> = days_before_year y + (365 + p + r - q)"
    by (simp only: days_before_year_def y diff_Suc_1)
  also have "365 + p + r - q = (if is_leap y then 366 else 365)"
    using m1 m2 by (simp add: p_def q_def r_def is_leap_def y)
  finally show ?thesis .
qed

lemma December: "days_before_month y 12 + 31 = (if is_leap y then 366 else 365)"
  by (simp add: days_before_month_def)

text \<open>The ordinal of the day after a date, and the ranges of its fields.\<close>

lemma ordinal_next_day:
  assumes "1 \<le> y" "1 \<le> m" "m \<le> 12" "1 \<le> d" "d \<le> days_in_month y m"
    and "next_day (y, m, d) = (y', m', d')"
  shows "days_before_year y' + days_before_month y' m' + d'
           = days_before_year y + days_before_month y m + d + 1
         \<and> 1 \<le> m' \<and> m' \<le> 12 \<and> 1 \<le> d' \<and> d' \<le> days_in_month y' m' \<and> 1 \<le> y'"
proof -
  consider (a) "d < days_in_month y m" | (b) "d = days_in_month y m" "m < 12"
    | (c) "d = days_in_month y m" "m = 12"
    using assms(3,5) by linarith
  then show ?thesis
  proof cases
    case a
    with assms show ?thesis by (auto simp add: next_day_def)
  next
    case b
    with assms have e: "y' = y" "m' = Suc m" "d' = 1" by (auto simp add: next_day_def)
    have "1 \<le> days_in_month y (Suc m)" by (simp add: days_in_month_def)
    with b assms(1,2) days_before_month_Suc [of m y] show ?thesis
      unfolding e by simp
  next
    case c
    with assms have e: "y' = Suc y" "m' = 1" "d' = 1" by (auto simp add: next_day_def)
    from c have d: "d = 31" by (simp add: days_in_month_def)
    have "days_before_month (Suc y) 1 = 0" by (simp add: days_before_month_def)
    with assms(1) c(2) d December [of y] days_before_year_Suc [of y] show ?thesis
      unfolding e by (simp add: days_in_month_def)
  qed
qed

text \<open>\<open>plus_one_hour\<close> adds 3600 seconds to the wall-clock reading, keeps the \<open>tzinfo\<close>
  and gives a datetime within the ranges.\<close>

lemma plus_one_hour_exact:
  assumes "valid_datetime dt" "plus_one_hour dt = Some dt'"
  shows "valid_datetime dt' \<and> wall_micros dt' = wall_micros dt + 3600000000
         \<and> tzinfo dt' = tzinfo dt"
proof (cases "hour dt < 23")
  case True
  with assms show ?thesis
    by (auto simp add: plus_one_hour_def valid_datetime_def wall_micros_def toordinal_def)
next
  case False
  with assms(1) have h: "hour dt = 23" by (simp add: valid_datetime_def)
  obtain y' m' d' where n: "next_day (year dt, month dt, day dt) = (y', m', d')"
    by (cases "next_day (year dt, month dt, day dt)") auto
  from assms(2) False n have y: "y' \<le> 9999"
    and dt': "dt' = dt\<lparr>year := y', month := m', day := d', hour := 0\<rparr>"
    by (auto simp add: plus_one_hour_def split: if_splits)
  from assms(1) have v: "1 \<le> year dt" "1 \<le> month dt" "month dt \<le> 12" "1 \<le> day dt"
    "day dt \<le> days_in_month (year dt) (month dt)"
    by (simp_all add: valid_datetime_def)
  note o = ordinal_next_day [OF v n]
  from o have "toordinal dt' = toordinal dt + 1"
    by (simp add: toordinal_def dt')
  then have "wall_micros dt' = wall_micros dt + 3600000000"
    by (simp add: wall_micros_def dt' h)
  moreover from assms(1) o y have "valid_datetime dt'"
    by (simp add: valid_datetime_def dt')
  ultimately show ?thesis by (simp add: dt')
qed

text \<open>Evaluating the formatting functions at numerals.\<close>

lemma zfill_numeral [simp]:
  "zfill (numeral k) n = zfill (pred_numeral k) (n div 10) @ [digit_char n]"
  using zfill.simps(2) [of "pred_numeral k" n] by (simp only: numeral_eq_Suc)

lemma ndigits_numeral [simp]:
  "ndigits (numeral k) n = (if n < 10 then 1 else Suc (ndigits (pred_numeral k) (n div 10)))"
  using ndigits.simps(2) [of "pred_numeral k" n] by (metis numeral_eq_Suc)

lemmas datetime_defs = fromisoformat_basic_def parse_digits_def parse_offset_def is_digit_def
  valid_datetime_def days_in_month_def is_leap_def replace_Z_def isoformat_def format_offset_def
  digit_char_def plus_one_hour_def next_day_def Let_def

lemma fromisoformat_basic_valid: "fromisoformat_basic s = Some d \<Longrightarrow> valid_datetime d"
  by (auto simp add: fromisoformat_basic_def Let_def split: if_splits option.splits)

text \<open>Evaluating the case conversions and the lookup at literal strings.\<close>

lemma char_eq_char_of: "(c = char_of (n::nat)) \<longleftrightarrow> take_bit 8 n = of_char c"
  using char_of_eq_iff [of n c] by auto

lemmas case_defs = lower_def lower_char_def upper_def upper_char_def char_of_eq_iff
  char_eq_char_of Let_def

lemmas lookup_defs = matching_leads_def name_filter_def ilike_def case_defs crm_db_def
  empty_db_def john_smith_def jane_smith_def ann_jones_def

section \<open>Properties of the lead lookup\<close>

lemma like_Nil [simp]: "like [] s \<longleftrightarrow> s = []"
  by (cases s) simp_all

lemma like_literal:
  "no_wildcards lit \<Longrightarrow> like (lit @ q) s \<longleftrightarrow> (\<exists>t. s = lit @ t \<and> like q t)"
proof (induction lit arbitrary: s)
  case Nil
  then show ?case by simp
next
  case (Cons p ps)
  then have p: "p \<noteq> CHR ''%''" "p \<noteq> CHR ''_''" "p \<noteq> CHR 0x5C" and ps: "no_wildcards ps"
    by (simp_all add: no_wildcards_def)
  show ?case
  proof (cases s)
    case Nil
    with p show ?thesis by simp
  next
    case (Cons c cs)
    with p Cons.IH [OF ps, of cs] show ?thesis by auto
  qed
qed

lemma like_percent:
  "like (CHR ''%'' # q) s \<longleftrightarrow> (\<exists>pre t. s = pre @ t \<and> like q t)"
proof (induction s)
  case Nil
  then show ?case by simp
next
  case (Cons c cs)
  have "like (CHR ''%'' # q) (c # cs) \<longleftrightarrow> like q (c # cs) \<or> like (CHR ''%'' # q) cs"
    by simp
  also have "\<dots> \<longleftrightarrow> like q (c # cs) \<or> (\<exists>pre t. cs = pre @ t \<and> like q t)"
    using Cons.IH by simp
  also have "\<dots> \<longleftrightarrow> (\<exists>pre t. c # cs = pre @ t \<and> like q t)"
    by (auto simp add: Cons_eq_append_conv)
  finally show ?case .
qed

lemma like_contains:
  "no_wildcards lit \<Longrightarrow>
   like (CHR ''%'' # lit @ [CHR ''%'']) s \<longleftrightarrow> (\<exists>pre post. s = pre @ lit @ post)"
  by (simp add: like_percent like_literal) blast

lemma lower_char_wildcard:
  "lower_char c = CHR ''%'' \<longleftrightarrow> c = CHR ''%''"
  "lower_char c = CHR ''_'' \<longleftrightarrow> c = CHR ''_''"
  "lower_char c = CHR 0x5C \<longleftrightarrow> c = CHR 0x5C"
  by (auto simp add: lower_char_def Let_def char_of_eq_iff take_bit_eq_mod)

lemma no_wildcards_lower: "no_wildcards s \<Longrightarrow> no_wildcards (lower s)"
  by (induction s) (simp_all add: no_wildcards_def lower_def lower_char_wildcard)

lemma lower_pattern: "lower (''%'' @ name @ ''%'') = CHR ''%'' # lower name @ [CHR ''%'']"
  by (simp add: lower_def lower_char_def)

text \<open>For a name without wildcards the filter is the substring test, without regard to
  case.\<close>

lemma ilike_contains:
  "no_wildcards name \<Longrightarrow>
   ilike (''%'' @ name @ ''%'') n \<longleftrightarrow> (\<exists>pre post. lower n = pre @ lower name @ post)"
  unfolding ilike_def lower_pattern using like_contains [OF no_wildcards_lower] by blast

lemma matching_leads_substring:
  assumes "no_wildcards name"
  shows "l \<in> set (matching_leads db uid name) \<longleftrightarrow>
     l \<in> set (leads db) \<and> lead_user_id l = Some uid
     \<and> (\<exists>n pre post. lead_name l = Some n \<and> lower n = pre @ lower name @ post)"
proof -
  have "name_filter uid name l \<longleftrightarrow>
          lead_user_id l = Some uid
          \<and> (\<exists>n pre post. lead_name l = Some n \<and> lower n = pre @ lower name @ post)"
    unfolding name_filter_def using ilike_contains [OF assms]
    by (cases "lead_name l") simp_all
  then show ?thesis by (auto simp add: matching_leads_def)
qed

section \<open>Properties of the credential store\<close>

lemma find_None_filter: "find P xs = None \<longleftrightarrow> filter P xs = []"
  by (induction xs) auto

lemma filter_update_first_same:
  "(\<And>x. P (f x) = P x) \<Longrightarrow>
   filter P (update_first P f xs) = (case filter P xs of [] \<Rightarrow> [] | y # ys \<Rightarrow> f y # ys)"
  by (induction xs) auto

lemma length_filter_update_first:
  "(\<And>x. Q (f x) = Q x) \<Longrightarrow> length (filter Q (update_first P f xs)) = length (filter Q xs)"
  by (induction xs) auto

lemma find_Some_filter: "find P xs = Some x \<Longrightarrow> \<exists>ys. filter P xs = x # ys"
  by (induction xs) (auto split: if_splits)

lemma bundles_upsert_other:
  "length (bundles (upsert_integration uid d w) u p)
   = (if u = uid \<and> p = ''google_calendar'' \<and> bundles w u p = [] then 1 else length (bundles w u p))"
proof (cases "find (has_platform uid ''google_calendar'') (integrations w)")
  case None
  then have "filter (has_platform uid ''google_calendar'') (integrations w) = []"
    by (simp add: find_None_filter)
  with None show ?thesis
    by (auto simp add: upsert_integration_def bundles_def has_platform_def)
next
  case (Some a)
  from find_Some_filter [OF Some] obtain ys where
    "filter (has_platform uid ''google_calendar'') (integrations w) = a # ys"
    by auto
  with Some show ?thesis
    by (auto simp add: upsert_integration_def bundles_def has_platform_def
        length_filter_update_first)
qed

lemma bundles_upsert_head:
  "\<exists>i rest. bundles (upsert_integration uid d w) uid ''google_calendar'' = i # rest
            \<and> integration_credentials i = Some d"
proof (cases "find (has_platform uid ''google_calendar'') (integrations w)")
  case None
  then have "filter (has_platform uid ''google_calendar'') (integrations w) = []"
    by (simp add: find_None_filter)
  with None show ?thesis
    by (simp add: upsert_integration_def bundles_def has_platform_def)
next
  case (Some a)
  from find_Some_filter [OF Some] obtain ys where
    "filter (has_platform uid ''google_calendar'') (integrations w) = a # ys"
    by auto
  with Some show ?thesis
    by (simp add: upsert_integration_def bundles_def filter_update_first_same has_platform_def)
qed

lemma statuses_upsert_head:
  "\<exists>st rest. statuses (upsert_status uid now w) uid ''google_calendar'' = st # rest
            \<and> istatus_status st = ''active'' \<and> istatus_last_checked st = now"
proof (cases "find (status_has_platform uid ''google_calendar'') (integration_statuses w)")
  case None
  then have "filter (status_has_platform uid ''google_calendar'') (integration_statuses w) = []"
    by (simp add: find_None_filter)
  with None show ?thesis
    by (simp add: upsert_status_def statuses_def status_has_platform_def)
next
  case (Some a)
  from find_Some_filter [OF Some] obtain ys where
    "filter (status_has_platform uid ''google_calendar'') (integration_statuses w) = a # ys"
    by auto
  with Some show ?thesis
    by (simp add: upsert_status_def statuses_def filter_update_first_same status_has_platform_def)
qed

lemma bundles_upsert_status [simp]: "bundles (upsert_status uid now w) u p = bundles w u p"
  by (simp add: bundles_def upsert_status_def split: option.splits)

lemma statuses_upsert_integration [simp]:
  "statuses (upsert_integration uid d w) u p = statuses w u p"
  by (simp add: statuses_def upsert_integration_def split: option.splits)

lemma user_missing_iff: "user_missing w uid \<longleftrightarrow> uid \<notin> set (map user_id (users w))"
  by (auto simp add: user_missing_def find_None_iff)

lemma upsert_integration_others [simp]:
  "users (upsert_integration uid d w) = users w"
  "integration_statuses (upsert_integration uid d w) = integration_statuses w"
  by (simp_all add: upsert_integration_def split: option.splits)

lemma upsert_status_others [simp]:
  "users (upsert_status uid now w) = users w"
  by (simp add: upsert_status_def split: option.splits)

text \<open>
  The two outcomes of \<open>save_integration_to_db\<close>: it raises when a database operation
  fails or when a row has to be created for a user who has no row in \<open>users\<close>.
\<close>

lemma save_outcome:
  "save_integration_to_db faults now creds email uid db =
     (if faults QueryIntegration \<or> faults QueryIntegrationStatus \<or> faults Commit
         \<or> (bundles db uid ''google_calendar'' = [] \<or> statuses db uid ''google_calendar'' = [])
           \<and> uid \<notin> set (map user_id (users db))
      then (Some DatabaseError, db)
      else (None, upsert_status uid now
                    (upsert_integration uid (credentials_dict creds @ [(''email'', JStr email)])
                       db)))"
  by (simp add: save_integration_to_db_def save_transaction_def SessionLocal_def commit_def
      rollback_def Let_def find_None_filter user_missing_iff bundles_def statuses_def)

lemma save_success:
  "\<not> faults QueryIntegration \<Longrightarrow> \<not> faults QueryIntegrationStatus \<Longrightarrow> \<not> faults Commit \<Longrightarrow>
   uid \<in> set (map user_id (users db)) \<Longrightarrow>
   save_integration_to_db faults now creds email uid db =
     (None, upsert_status uid now
              (upsert_integration uid (credentials_dict creds @ [(''email'', JStr email)]) db))"
  by (simp add: save_outcome)

lemma save_failure:
  "faults QueryIntegration \<or> faults QueryIntegrationStatus \<or> faults Commit \<Longrightarrow>
   save_integration_to_db faults now creds email uid db = (Some DatabaseError, db)"
  by (auto simp add: save_outcome)

lemma save_without_user:
  "bundles db uid ''google_calendar'' = [] \<or> statuses db uid ''google_calendar'' = [] \<Longrightarrow>
   uid \<notin> set (map user_id (users db)) \<Longrightarrow>
   save_integration_to_db faults now creds email uid db = (Some DatabaseError, db)"
  by (auto simp add: save_outcome)

lemma save_returns:
  assumes "save_integration_to_db faults now creds email uid db = (None, db')"
  shows "\<not> (faults QueryIntegration \<or> faults QueryIntegrationStatus \<or> faults Commit)"
    and "db' = upsert_status uid now
                 (upsert_integration uid (credentials_dict creds @ [(''email'', JStr email)]) db)"
  using assms by (auto simp add: save_outcome split: if_splits)

text \<open>
  C2: \<open>save_integration_to_db\<close> returns exactly when no database operation fails and the
  user has a row in \<open>users\<close> wherever a bundle or a status row has to be created for them;
  otherwise it raises and leaves the stored state as it was. When it returns, a pair of
  user and platform that had at most one bundle still has at most one, the first bundle
  of the user for \<open>google_calendar\<close> holds the eight entries made of the given credentials
  and the given email, and the first status row of the user for \<open>google_calendar\<close> is
  \<open>active\<close> with \<open>last_checked\<close> the time of the call.
\<close>

theorem C2_save_integration_to_db:
  "save_integration_to_db faults now creds email uid db = (r, db') \<Longrightarrow>
     (r = None \<longleftrightarrow>
        \<not> (faults QueryIntegration \<or> faults QueryIntegrationStatus \<or> faults Commit)
        \<and> ((bundles db uid ''google_calendar'' = [] \<or> statuses db uid ''google_calendar'' = [])
             \<longrightarrow> uid \<in> set (map user_id (users db))))
   \<and> (r \<noteq> None \<longrightarrow> r = Some DatabaseError \<and> db' = db)
   \<and> (r = None \<longrightarrow>
        (\<forall>u p. length (bundles db u p) \<le> 1 \<longrightarrow> length (bundles db' u p) \<le> 1)
      \<and> (\<exists>i rest. bundles db' uid ''google_calendar'' = i # rest
             \<and> integration_credentials i
                 = Some [(''token'', (case token creds of None \<Rightarrow> JNull | Some t \<Rightarrow> JStr t)),
                         (''refresh_token'',
                          (case refresh_token creds of None \<Rightarrow> JNull | Some t \<Rightarrow> JStr t)),
                         (''token_uri'',
                          (case token_uri creds of None \<Rightarrow> JNull | Some t \<Rightarrow> JStr t)),
                         (''client_id'',
                          (case client_id creds of None \<Rightarrow> JNull | Some t \<Rightarrow> JStr t)),
                         (''client_secret'',
                          (case client_secret creds of None \<Rightarrow> JNull | Some t \<Rightarrow> JStr t)),
                         (''scopes'',
                          (case scopes creds of None \<Rightarrow> JNull | Some xs \<Rightarrow> JArr (map JStr xs))),
                         (''expiry'',
                          (case expiry creds of None \<Rightarrow> JNull | Some e \<Rightarrow> JStr (isoformat e))),
                         (''email'', JStr email)])
      \<and> (\<exists>st rest. statuses db' uid ''google_calendar'' = st # rest
             \<and> istatus_status st = ''active'' \<and> istatus_last_checked st = now))"
proof (cases "faults QueryIntegration \<or> faults QueryIntegrationStatus \<or> faults Commit
              \<or> (bundles db uid ''google_calendar'' = [] \<or> statuses db uid ''google_calendar'' = [])
                \<and> uid \<notin> set (map user_id (users db))")
  case True
  assume "save_integration_to_db faults now creds email uid db = (r, db')"
  with True have "r = Some DatabaseError" "db' = db"
    by (simp_all add: save_outcome)
  with True show ?thesis by auto
next
  case False
  assume a: "save_integration_to_db faults now creds email uid db = (r, db')"
  let ?d = "credentials_dict creds @ [(''email'', JStr email)]"
  from False a have r: "r = None"
    and db': "db' = upsert_status uid now (upsert_integration uid ?d db)"
    by (auto simp add: save_outcome split: if_splits)
  have d: "?d = [(''token'', (case token creds of None \<Rightarrow> JNull | Some t \<Rightarrow> JStr t)),
                 (''refresh_token'',
                  (case refresh_token creds of None \<Rightarrow> JNull | Some t \<Rightarrow> JStr t)),
                 (''token_uri'', (case token_uri creds of None \<Rightarrow> JNull | Some t \<Rightarrow> JStr t)),
                 (''client_id'', (case client_id creds of None \<Rightarrow> JNull | Some t \<Rightarrow> JStr t)),
                 (''client_secret'',
                  (case client_secret creds of None \<Rightarrow> JNull | Some t \<Rightarrow> JStr t)),
                 (''scopes'',
                  (case scopes creds of None \<Rightarrow> JNull | Some xs \<Rightarrow> JArr (map JStr xs))),
                 (''expiry'',
                  (case expiry creds of None \<Rightarrow> JNull | Some e \<Rightarrow> JStr (isoformat e))),
                 (''email'', JStr email)]"
    by (simp add: credentials_dict_def json_opt_str_def)
  have 1: "\<forall>u p. length (bundles db u p) \<le> 1 \<longrightarrow> length (bundles db' u p) \<le> 1"
    unfolding db' by (simp add: bundles_upsert_other)
  have 2: "\<exists>i rest. bundles db' uid ''google_calendar'' = i # rest
             \<and> integration_credentials i = Some ?d"
    unfolding db' using bundles_upsert_head by simp
  have 3: "\<exists>st rest. statuses db' uid ''google_calendar'' = st # rest
             \<and> istatus_status st = ''active'' \<and> istatus_last_checked st = now"
    unfolding db' using statuses_upsert_head by simp
  from r False 1 2 [unfolded d] 3 show ?thesis by blast
qed

lemmas eval_defs = save_integration_to_db_def save_transaction_def upsert_integration_def
  upsert_status_def SessionLocal_def commit_def rollback_def has_platform_def
  status_has_platform_def bundles_def statuses_def credentials_dict_def json_opt_str_def
  user_missing_def next_id_def empty_db_def signed_up_db_def connected_db_def agent_def
  stale_credentials_def noon_def no_faults_def commit_fails_def Let_def

theorem C2_save_integration_to_db_witness:
  "save_integration_to_db commit_fails noon stale_credentials ''agent@example.com'' 1 connected_db
     = (Some DatabaseError, connected_db)
   \<and> save_integration_to_db no_faults noon stale_credentials ''agent@example.com'' 1 empty_db
     = (Some DatabaseError, empty_db)
   \<and> save_integration_to_db no_faults noon stale_credentials ''agent@example.com'' 1 signed_up_db
     = (None, connected_db)
   \<and> map integration_credentials (bundles connected_db 1 ''google_calendar'')
     = [Some [(''token'', JStr ''old-token''),
              (''refresh_token'', JStr ''refresh-1''),
              (''token_uri'', JStr ''https://oauth2.googleapis.com/token''),
              (''client_id'', JStr ''client''),
              (''client_secret'', JStr ''secret''),
              (''scopes'', JArr [JStr ''openid'']),
              (''expiry'', JStr ''2024-01-15T12:00:00''),
              (''email'', JStr ''agent@example.com'')]]
   \<and> map istatus_status (statuses connected_db 1 ''google_calendar'') = [''active'']
   \<and> map istatus_last_checked (statuses connected_db 1 ''google_calendar'') = [noon]"
proof -
  have iso: "isoformat noon = ''2024-01-15T12:00:00''"
    by (simp add: noon_def datetime_defs)
  have e1: "save_integration_to_db commit_fails noon stale_credentials ''agent@example.com'' 1
              connected_db = (Some DatabaseError, connected_db)"
    by (simp add: eval_defs)
  have e2: "save_integration_to_db no_faults noon stale_credentials ''agent@example.com'' 1
              empty_db = (Some DatabaseError, empty_db)"
    by (simp add: eval_defs)
  have e3: "save_integration_to_db no_faults noon stale_credentials ''agent@example.com'' 1
              signed_up_db = (None, connected_db)"
    using iso by (simp add: eval_defs)
  have l: "length (bundles signed_up_db 1 ''google_calendar'') \<le> 1"
    by (simp add: bundles_def signed_up_db_def empty_db_def)
  have s: "length (statuses connected_db 1 ''google_calendar'') = 1"
    by (simp add: statuses_def status_has_platform_def connected_db_def signed_up_db_def
        empty_db_def)
  from C2_save_integration_to_db [OF e3] l
  have "length (bundles connected_db 1 ''google_calendar'') \<le> 1"
    by blast
  moreover from C2_save_integration_to_db [OF e3] obtain i rest where
    "bundles connected_db 1 ''google_calendar'' = i # rest"
    "integration_credentials i
       = Some [(''token'', JStr ''old-token''),
               (''refresh_token'', JStr ''refresh-1''),
               (''token_uri'', JStr ''https://oauth2.googleapis.com/token''),
               (''client_id'', JStr ''client''),
               (''client_secret'', JStr ''secret''),
               (''scopes'', JArr [JStr ''openid'']),
               (''expiry'', JStr ''2024-01-15T12:00:00''),
               (''email'', JStr ''agent@example.com'')]"
    by (auto simp add: stale_credentials_def iso)
  ultimately have b: "map integration_credentials (bundles connected_db 1 ''google_calendar'')
     = [Some [(''token'', JStr ''old-token''),
              (''refresh_token'', JStr ''refresh-1''),
              (''token_uri'', JStr ''https://oauth2.googleapis.com/token''),
              (''client_id'', JStr ''client''),
              (''client_secret'', JStr ''secret''),
              (''scopes'', JArr [JStr ''openid'']),
              (''expiry'', JStr ''2024-01-15T12:00:00''),
              (''email'', JStr ''agent@example.com'')]]"
    by simp
  from C2_save_integration_to_db [OF e3] obtain st rest where
    "statuses connected_db 1 ''google_calendar'' = st # rest"
    "istatus_status st = ''active''" "istatus_last_checked st = noon"
    by auto
  with s have "map istatus_status (statuses connected_db 1 ''google_calendar'') = [''active'']"
    "map istatus_last_checked (statuses connected_db 1 ''google_calendar'') = [noon]"
    by simp_all
  with C2_save_integration_to_db [OF e1] C2_save_integration_to_db [OF e2] e1 e2 e3 b
  show ?thesis by simp
qed

text \<open>
  Saving twice: from a stored state with at most one bundle for the user, two calls that
  return leave exactly one bundle, and it holds the dict of the second call.
\<close>

lemma save_twice:
  assumes "length (bundles db uid ''google_calendar'') \<le> 1"
    and "save_integration_to_db faults1 now1 creds1 email1 uid db = (None, db1)"
    and "save_integration_to_db faults2 now2 creds2 email2 uid db1 = (None, db2)"
  shows "map integration_credentials (bundles db2 uid ''google_calendar'')
         = [Some (credentials_dict creds2 @ [(''email'', JStr email2)])]"
proof -
  let ?d2 = "credentials_dict creds2 @ [(''email'', JStr email2)]"
  from assms(1) have "length (bundles db1 uid ''google_calendar'') \<le> 1"
    unfolding save_returns(2) [OF assms(2)] by (simp add: bundles_upsert_other)
  then have l: "length (bundles db2 uid ''google_calendar'') \<le> 1"
    unfolding save_returns(2) [OF assms(3)] by (simp add: bundles_upsert_other)
  obtain i rest where
    "bundles db2 uid ''google_calendar'' = i # rest" "integration_credentials i = Some ?d2"
    unfolding save_returns(2) [OF assms(3)] using bundles_upsert_head [of uid ?d2 db1] by auto
  with l show ?thesis by simp
qed

text \<open>
  C3: with credentials that are not expired the function returns them as they are, and
  with expired credentials that have no refresh token it returns \<open>None\<close>; in both cases
  the stored state is untouched and there is no event: no token request and no database
  operation.
\<close>

theorem C3_refresh_not_needed_or_impossible:
  "(\<not> expired lib c \<longrightarrow>
      refresh_and_save_credentials lib faults uid (Some c) p db = (Some c, db, []))
   \<and> (expired lib c \<and> \<not> truthy_str (refresh_token c) \<longrightarrow>
      refresh_and_save_credentials lib faults uid (Some c) p db = (None, db, []))"
  by (simp add: refresh_and_save_credentials_def)

theorem C3_refresh_not_needed_or_impossible_witness:
  "\<not> expired fresh stale_credentials
   \<and> refresh_and_save_credentials fresh no_faults 1 (Some stale_credentials)
       ''google_calendar'' connected_db = (Some stale_credentials, connected_db, [])
   \<and> expired refreshing (stale_credentials\<lparr>refresh_token := None\<rparr>)
   \<and> \<not> truthy_str (refresh_token (stale_credentials\<lparr>refresh_token := None\<rparr>))
   \<and> refresh_and_save_credentials refreshing no_faults 1
       (Some (stale_credentials\<lparr>refresh_token := None\<rparr>)) ''google_calendar'' connected_db
       = (None, connected_db, [])"
proof -
  have a: "\<not> expired fresh stale_credentials" by (simp add: fresh_def)
  have b: "expired refreshing (stale_credentials\<lparr>refresh_token := None\<rparr>)
           \<and> \<not> truthy_str (refresh_token (stale_credentials\<lparr>refresh_token := None\<rparr>))"
    by (simp add: refreshing_def truthy_str_def)
  from a b
    C3_refresh_not_needed_or_impossible
      [of fresh stale_credentials no_faults 1 "''google_calendar''" connected_db]
    C3_refresh_not_needed_or_impossible
      [of refreshing "stale_credentials\<lparr>refresh_token := None\<rparr>" no_faults 1
          "''google_calendar''" connected_db]
  show ?thesis by blast
qed

text \<open>
  What a refresh that reaches the database stores: the seven keys of
  \<open>credentials_dict\<close>, built from the refreshed object.
\<close>

lemma refresh_stores_credentials_dict:
  assumes "expired lib c" "truthy_str (refresh_token c)" "token_endpoint lib c = Some g"
    and "\<not> faults QueryIntegration" "\<not> faults Commit"
    and "refresh_and_save_credentials lib faults uid (Some c) p db = (r, db', es)"
    and "bundles db uid p = i # rest"
  shows "map integration_credentials (bundles db' uid p)
         = Some (credentials_dict (apply_grant c g)) # map integration_credentials rest"
proof -
  from assms(7) have "find (has_platform uid p) (integrations db) \<noteq> None"
    by (simp add: bundles_def find_None_filter)
  then obtain a where f: "find (has_platform uid p) (integrations db) = Some a" by auto
  from assms(1-6) f have
    "db' = db\<lparr>integrations := update_first (has_platform uid p)
              (\<lambda>i. i\<lparr>integration_credentials := Some (credentials_dict (apply_grant c g))\<rparr>)
              (integrations db)\<rparr>"
    by (simp add: refresh_and_save_credentials_def SessionLocal_def commit_def Let_def)
  with assms(7) show ?thesis
    by (simp add: bundles_def filter_update_first_same has_platform_def)
qed

text \<open>
  C4, on the stored state of a connected user: before the refresh the stored dict has
  the key \<open>email\<close>, after a refresh that succeeds and is committed it does not. The
  refresh path writes the seven keys of \<open>credentials_dict\<close> and nothing else, where
  \<open>save_integration_to_db\<close> adds \<open>email\<close>.
\<close>

theorem C4_refresh_drops_email:
  "map (map_option (\<lambda>d. dict_get d ''email'') \<circ> integration_credentials)
       (bundles connected_db 1 ''google_calendar'')
     = [Some (Some (JStr ''agent@example.com''))]
   \<and> map (map_option (\<lambda>d. dict_get d ''email'') \<circ> integration_credentials)
       (bundles (fst (snd (refresh_and_save_credentials refreshing no_faults 1
                             (Some stale_credentials) ''google_calendar'' connected_db)))
                1 ''google_calendar'')
     = [Some None]
   \<and> snd (snd (refresh_and_save_credentials refreshing no_faults 1
                 (Some stale_credentials) ''google_calendar'' connected_db))
     = [TokenRequest, DbRead, DbCommit]"
  by (simp add: refresh_and_save_credentials_def refreshing_def truthy_str_def apply_grant_def
      new_grant_def dict_get_def eval_defs)

text \<open>
  C10: when the token request succeeds and the commit of the new dict fails, the function
  still returns the refreshed credentials, the stored state is the one before the call,
  and the value returned is the one a call whose commit succeeds returns.
\<close>

theorem C10_failed_write_is_swallowed:
  "expired lib c \<Longrightarrow> truthy_str (refresh_token c) \<Longrightarrow> token_endpoint lib c = Some g \<Longrightarrow>
   \<not> faults QueryIntegration \<Longrightarrow> faults Commit \<Longrightarrow> bundles db uid p \<noteq> [] \<Longrightarrow>
   refresh_and_save_credentials lib faults uid (Some c) p db
     = (Some (apply_grant c g), db, [TokenRequest, DbRead, DbCommit, DbRollback])
   \<and> fst (refresh_and_save_credentials lib no_faults uid (Some c) p db)
     = Some (apply_grant c g)"
proof -
  assume a: "expired lib c" "truthy_str (refresh_token c)" "token_endpoint lib c = Some g"
    "\<not> faults QueryIntegration" "faults Commit" "bundles db uid p \<noteq> []"
  from a(6) have "find (has_platform uid p) (integrations db) \<noteq> None"
    by (simp add: bundles_def find_None_filter)
  then obtain i where f: "find (has_platform uid p) (integrations db) = Some i" by auto
  from a f show ?thesis
    by (simp add: refresh_and_save_credentials_def SessionLocal_def rollback_def commit_def
        no_faults_def Let_def)
qed

theorem C10_failed_write_is_swallowed_witness:
  "refresh_and_save_credentials refreshing commit_fails 1 (Some stale_credentials)
     ''google_calendar'' connected_db
     = (Some (apply_grant stale_credentials new_grant), connected_db,
        [TokenRequest, DbRead, DbCommit, DbRollback])
   \<and> fst (refresh_and_save_credentials refreshing no_faults 1 (Some stale_credentials)
            ''google_calendar'' connected_db)
     = Some (apply_grant stale_credentials new_grant)"
proof -
  have "expired refreshing stale_credentials" by (simp add: refreshing_def)
  moreover have "truthy_str (refresh_token stale_credentials)"
    by (simp add: truthy_str_def stale_credentials_def)
  moreover have "token_endpoint refreshing stale_credentials = Some new_grant"
    by (simp add: refreshing_def)
  moreover have "\<not> commit_fails QueryIntegration" "commit_fails Commit"
    by (simp_all add: commit_fails_def)
  moreover have "bundles connected_db 1 ''google_calendar'' \<noteq> []"
    by (simp add: bundles_def connected_db_def empty_db_def has_platform_def)
  ultimately show ?thesis by (rule C10_failed_write_is_swallowed)
qed

text \<open>
  C9: \<open>send_email_notification\<close> always returns a boolean. It returns true exactly when
  the message was built, encoded and accepted by the Gmail client; the message sent is
  then the one built, whose parts are the plain text first and the HTML second. When it
  returns false nothing was sent.
\<close>

theorem C9_send_email_notification:
  "send_email_notification lib creds sender recipient details = (ok, sent) \<Longrightarrow>
     (ok \<longrightarrow> (\<exists>m. sent = [m] \<and> build_message sender recipient details = Inr m
                  \<and> map part_subtype (msg_parts m) = [''plain'', ''html'']))
   \<and> (\<not> ok \<longrightarrow> sent = [])
   \<and> (ok \<longleftrightarrow> (\<exists>m raw. build_message sender recipient details = Inr m
                      \<and> encode_message lib m = Some raw \<and> gmail_send lib creds raw))"
proof -
  assume a: "send_email_notification lib creds sender recipient details = (ok, sent)"
  have parts: "\<And>m. build_message sender recipient details = Inr m \<Longrightarrow>
                 map part_subtype (msg_parts m) = [''plain'', ''html'']"
    by (auto simp add: build_message_def Let_def split: option.splits)
  from a show ?thesis
    using parts
    by (auto simp add: send_email_notification_def split: sum.splits option.splits if_splits)
qed

theorem C9_send_email_notification_witness:
  "send_email_notification \<lparr>encode_message = (\<lambda>_. Some ''raw''), gmail_send = (\<lambda>_ _. True)\<rparr>
     None ''agent@example.com'' (Some ''smith@example.com'')
     [(''summary'', Some ''Meeting with Smith'')]
   = (True, [the_message])
   \<and> build_message ''agent@example.com'' (Some ''smith@example.com'')
        [(''summary'', Some ''Meeting with Smith'')] = Inr the_message
   \<and> map part_subtype (msg_parts the_message) = [''plain'', ''html'']"
proof -
  have e: "send_email_notification
             \<lparr>encode_message = (\<lambda>_. Some ''raw''), gmail_send = (\<lambda>_ _. True)\<rparr>
             None ''agent@example.com'' (Some ''smith@example.com'')
             [(''summary'', Some ''Meeting with Smith'')] = (True, [the_message])"
    by (simp add: send_email_notification_def build_message_def the_message_def fmt_def
        get_default_def Let_def)
  from C9_send_email_notification [OF e] e show ?thesis by auto
qed

section \<open>Properties of the OAuth callback and of save_communication\<close>

lemmas route_eval_defs = cpython_def granting_def crm_db_def agent_def john_smith_def jane_smith_def
  ann_jones_def state_of_user_1_def get_or_def truthy_def truthy_str_def truthy_int_def
  raised_response_def JSONResponse_def

text \<open>
  An \<open>HTTPException\<close> raised in the body of the callback leaves the handler as a 500,
  whatever its own status code: the two checks of lines 69-73 answer 500.
\<close>

lemma google_callback_no_user_id:
  assumes "json_loads py (get_or (query_state req) ''{}'') = Some (JObj kv)"
    and "\<not> (case map_of kv ''user_id'' of None \<Rightarrow> False | Some v \<Rightarrow> truthy v)"
  shows "status_code (fst (google_callback py flow faults now req db)) = 500"
  using assms
  by (simp add: google_callback_def google_callback_body_def raised_response_def
      JSONResponse_def Let_def)

lemma google_callback_no_code:
  assumes "json_loads py (get_or (query_state req) ''{}'') = Some (JObj kv)"
    and "case map_of kv ''user_id'' of None \<Rightarrow> False | Some v \<Rightarrow> truthy v"
    and "\<not> truthy_str (query_code req)"
  shows "status_code (fst (google_callback py flow faults now req db)) = 500"
  using assms
  by (simp add: google_callback_def google_callback_body_def raised_response_def
      JSONResponse_def Let_def)

lemma google_callback_no_refresh_token:
  assumes "json_loads py (get_or (query_state req) ''{}'') = Some (JObj kv)"
    and "case map_of kv ''user_id'' of None \<Rightarrow> False | Some v \<Rightarrow> truthy v"
    and "truthy_str (query_code req)"
    and "fetch_token flow req = Some c" and "\<not> truthy_str (refresh_token c)"
  shows "status_code (fst (google_callback py flow faults now req db)) = 400"
  using assms
  by (simp add: google_callback_def google_callback_body_def raised_response_def
      JSONResponse_def Let_def)

text \<open>
  C5, at three requests: a callback that carries a code and no state, a callback that
  carries the state of user 1 and no code, and a callback that carries both and is
  granted no refresh token. The first two are answered 500, the third 400.
\<close>

theorem C5_callback_statuses:
  "status_code (fst (google_callback cpython (granting stale_credentials) no_faults noon
                       \<lparr>query_state = None, query_code = Some ''4/0AbCd''\<rparr> empty_db)) = 500
   \<and> status_code (fst (google_callback cpython (granting stale_credentials) no_faults noon
                       \<lparr>query_state = Some state_of_user_1, query_code = None\<rparr> empty_db)) = 500
   \<and> status_code (fst (google_callback cpython
                       (granting (stale_credentials\<lparr>refresh_token := None\<rparr>)) no_faults noon
                       \<lparr>query_state = Some state_of_user_1, query_code = Some ''4/0AbCd''\<rparr>
                       empty_db)) = 400"
  by (simp add: google_callback_def google_callback_body_def route_eval_defs Let_def)

text \<open>
  save_communication answers 201 or 500 and nothing else: every \<open>HTTPException\<close> of its
  body is caught by its own \<open>except Exception\<close>. When it answers 500 the stored state is
  the one before the request.
\<close>

lemma save_communication_statuses:
  "save_communication py now data db = (r, db') \<Longrightarrow>
   (status_code r = 201 \<or> status_code r = 500) \<and> (status_code r = 500 \<longrightarrow> db' = db)"
  by (auto simp add: save_communication_def save_communication_body_def SessionLocal_def
      rollback_def raised_response_def JSONResponse_def Let_def
      split: option.splits sum.splits prod.splits if_splits)

text \<open>
  C6, at a call record without \<open>duration\<close>: the body raises the \<open>HTTPException\<close> of
  status 400 with the communication pending in the session, the handler answers 500,
  and the stored state is the one before the request, with no communication row and no
  call row.
\<close>

theorem C6_call_without_duration:
  "(\<exists>s. save_communication_body cpython noon call_without_duration (SessionLocal crm_db)
          = Inl (HTTPException 400 (JStr ''Duration and call_id are required for call records''),
                 s)
        \<and> length (communication_rows (working s)) = 1)
   \<and> status_code (fst (save_communication cpython noon call_without_duration crm_db)) = 500
   \<and> snd (save_communication cpython noon call_without_duration crm_db) = crm_db
   \<and> communication_rows (snd (save_communication cpython noon call_without_duration crm_db)) = []
   \<and> calls (snd (save_communication cpython noon call_without_duration crm_db)) = []"
  by (simp add: save_communication_def save_communication_body_def call_without_duration_def
      new_communication_def add_communication_def comm_rows_def communication_rows_def
      SessionLocal_def rollback_def upper_def upper_char_def next_id_def empty_db_def
      char_of_eq_iff route_eval_defs Let_def)

section \<open>Properties of the three workflow endpoints\<close>

lemma singleton_hd: "xs \<noteq> [] \<Longrightarrow> \<not> 1 < length xs \<Longrightarrow> xs = [hd xs]"
  by (cases xs) auto

text \<open>book_appointment, by cases.\<close>

lemma book_appointment_cases:
  assumes "ba_user_id data = Some uid" "ba_lead_name data = Some name"
    "ba_start_time data = Some st"
  shows "matching_leads db uid name = [] \<Longrightarrow>
           status_code (book_appointment py data db) = 404"
    and "1 < length (matching_leads db uid name) \<Longrightarrow>
           status_code (book_appointment py data db) = 300
           \<and> member (content (book_appointment py data db)) ''matching_leads''
               = Some (JArr (map (lead_info ''lead_id'') (matching_leads db uid name)))"
    and "matching_leads db uid name = [lead] \<Longrightarrow> fromisoformat py (replace_Z st) = None \<Longrightarrow>
           status_code (book_appointment py data db) = 400"
    and "matching_leads db uid name = [lead] \<Longrightarrow>
         fromisoformat py (replace_Z st) = Some start_time \<Longrightarrow>
         plus_one_hour start_time = None \<Longrightarrow>
           status_code (book_appointment py data db) = 500"
    and "matching_leads db uid name = [lead] \<Longrightarrow>
         fromisoformat py (replace_Z st) = Some start_time \<Longrightarrow>
         plus_one_hour start_time = Some end_time \<Longrightarrow>
           status_code (book_appointment py data db) = 202
           \<and> at_path (content (book_appointment py data db))
                 [''appointment_details'', ''start_time'']
               = Some (JStr (isoformat start_time))
           \<and> at_path (content (book_appointment py data db))
                 [''appointment_details'', ''end_time'']
               = Some (JStr (isoformat end_time))
           \<and> at_path (content (book_appointment py data db)) [''lead_details'', ''name'']
               = Some (json_opt_str (lead_name lead))"
  using assms
  by (auto simp add: book_appointment_def book_appointment_body_def Let_def member_def
      JSONResponse_def raised_response_def)

lemma book_appointment_missing:
  "ba_user_id data = None \<or> ba_lead_name data = None \<or> ba_start_time data = None \<Longrightarrow>
   status_code (book_appointment py data db) = 500"
  by (auto simp add: book_appointment_def book_appointment_body_def JSONResponse_def
      raised_response_def split: option.splits)

text \<open>initiate_call, by cases; \<open>now\<close> is naive.\<close>

lemma initiate_call_cases:
  assumes "ic_user_id data = Some uid" "ic_contact_name data = Some name"
    "ic_call_time data = Some ct"
  shows "matching_leads db uid name = [] \<Longrightarrow>
           status_code (initiate_call py now data db) = 404"
    and "1 < length (matching_leads db uid name) \<Longrightarrow>
           status_code (initiate_call py now data db) = 300
           \<and> member (content (initiate_call py now data db)) ''matching_contacts''
               = Some (JArr (map (lead_info ''contact_id'') (matching_leads db uid name)))"
    and "matching_leads db uid name = [lead] \<Longrightarrow> fromisoformat py (replace_Z ct) = None \<Longrightarrow>
           status_code (initiate_call py now data db) = 400"
    and "matching_leads db uid name = [lead] \<Longrightarrow>
         fromisoformat py (replace_Z ct) = Some call_time \<Longrightarrow>
         tzinfo call_time = None \<Longrightarrow> tzinfo now = None \<Longrightarrow>
           status_code (initiate_call py now data db) = 202"
    and "matching_leads db uid name = [lead] \<Longrightarrow>
         fromisoformat py (replace_Z ct) = Some call_time \<Longrightarrow>
         tzinfo call_time = Some off \<Longrightarrow> tzinfo now = None \<Longrightarrow>
           status_code (initiate_call py now data db) = 500"
  using assms
  by (auto simp add: initiate_call_def initiate_call_body_def datetime_le_def Let_def member_def
      JSONResponse_def raised_response_def)

text \<open>send_message, by cases.\<close>

lemma send_message_cases:
  assumes "sm_user_id data = Some uid" "sm_lead_name data = Some name"
    "sm_message_type data = Some mtype" "sm_message_content data = Some mcontent"
  shows "upper mtype \<noteq> ''SMS'' \<Longrightarrow> upper mtype \<noteq> ''EMAIL'' \<Longrightarrow>
           status_code (send_message py data db) = 400"
    and "upper mtype = ''SMS'' \<or> upper mtype = ''EMAIL'' \<Longrightarrow>
         matching_leads db uid name = [] \<Longrightarrow>
           status_code (send_message py data db) = 404"
    and "upper mtype = ''SMS'' \<or> upper mtype = ''EMAIL'' \<Longrightarrow>
         1 < length (matching_leads db uid name) \<Longrightarrow>
           status_code (send_message py data db) = 300
           \<and> member (content (send_message py data db)) ''matching_leads''
               = Some (JArr (map (lead_info ''lead_id'') (matching_leads db uid name)))"
    and "upper mtype = ''SMS'' \<or> upper mtype = ''EMAIL'' \<Longrightarrow>
         matching_leads db uid name = [lead] \<Longrightarrow>
           status_code (send_message py data db) = 202"
  using assms
  by (auto simp add: send_message_def send_message_body_def Let_def member_def
      JSONResponse_def raised_response_def)


lemma length_one: "length xs = 1 \<Longrightarrow> \<exists>x. xs = [x]"
  by (cases xs) auto

text \<open>The lookups and the datetimes of the examples.\<close>

lemma example_lookups:
  "matching_leads crm_db 1 ''John'' = [john_smith]"
  "matching_leads crm_db 1 ''smith'' = [john_smith, jane_smith]"
  "matching_leads crm_db 1 ''Zed'' = []"
  by (simp_all add: lookup_defs)

lemma example_datetimes:
  "fromisoformat cpython (replace_Z ''2024-01-15T14:00:00Z'') = Some two_pm_utc"
  "plus_one_hour two_pm_utc = Some three_pm_utc"
  "isoformat two_pm_utc = ''2024-01-15T14:00:00+00:00''"
  "isoformat three_pm_utc = ''2024-01-15T15:00:00+00:00''"
  "fromisoformat cpython (replace_Z ''tomorrow'') = None"
  "fromisoformat cpython (replace_Z ''2024-01-15T14:00:00'')
     = Some (two_pm_utc\<lparr>tzinfo := None\<rparr>)"
  by (simp_all add: cpython_def two_pm_utc_def three_pm_utc_def datetime_defs)

text \<open>
  C1, as stated: with all required fields, exactly one match is answered 202. It fails:
  the lookup of \<open>John\<close> finds one lead, and the fax to John and the booking for
  \<open>tomorrow\<close> are both answered 400.
\<close>

theorem C1_one_match_counterexample:
  "length (matching_leads crm_db 1 ''John'') = 1
   \<and> status_code (send_message cpython fax_to_john crm_db) = 400
   \<and> status_code (book_appointment cpython booking_tomorrow crm_db) = 400"
proof -
  have "upper ''FAX'' \<noteq> ''SMS''" "upper ''FAX'' \<noteq> ''EMAIL''"
    by (simp_all add: case_defs)
  then have "status_code (send_message cpython fax_to_john crm_db) = 400"
    by (intro send_message_cases(1)) (simp_all add: fax_to_john_def)
  moreover have "status_code (book_appointment cpython booking_tomorrow crm_db) = 400"
    by (rule book_appointment_cases(3) [OF _ _ _ example_lookups(1) example_datetimes(5)])
       (simp_all add: booking_tomorrow_def booking_def)
  ultimately show ?thesis by (simp add: example_lookups)
qed

lemma lead_info_fields:
  "lead_info k =
     (\<lambda>m. JObj [(k, JInt (lead_id m)),
                (''name'', (case lead_name m of None \<Rightarrow> JNull | Some v \<Rightarrow> JStr v)),
                (''email'', (case lead_email m of None \<Rightarrow> JNull | Some v \<Rightarrow> JStr v)),
                (''phone'', (case lead_phone m of None \<Rightarrow> JNull | Some v \<Rightarrow> JStr v)),
                (''status'', (case lead_status m of None \<Rightarrow> JNull | Some v \<Rightarrow> JStr v)),
                (''source'', (case lead_source m of None \<Rightarrow> JNull | Some v \<Rightarrow> JStr v))])"
  by (rule ext) (simp add: lead_info_def json_opt_str_def)

text \<open>
  C1, amended. The leads are looked up by \<open>ILIKE\<close> with the pattern \<open>%name%\<close> among the
  leads of the user; for a name without \<open>%\<close>, \<open>_\<close> and backslash that is the substring
  test without regard to case. With all required fields: no match is answered 404;
  more than one match is answered 300 with the list of every match (id, name, email,
  phone, status, source); exactly one match is answered 202 by book_appointment when
  the start time parses and its end is in range, by initiate_call when the call time
  parses to a time without offset, and by send_message; a time that does not parse is
  answered 400, and send_message answers 400 before the lookup when the message type
  is neither SMS nor EMAIL.
\<close>

theorem C1_lookup_outcomes:
  "(no_wildcards name \<longrightarrow>
      (l \<in> set (matching_leads db uid name) \<longleftrightarrow>
         l \<in> set (leads db) \<and> lead_user_id l = Some uid
         \<and> (\<exists>n pre post. lead_name l = Some n \<and> lower n = pre @ lower name @ post)))
   \<and> (ba_user_id bd = Some uid \<and> ba_lead_name bd = Some name \<and> ba_start_time bd = Some st \<longrightarrow>
        (matching_leads db uid name = [] \<longrightarrow> status_code (book_appointment py bd db) = 404)
      \<and> (1 < length (matching_leads db uid name) \<longrightarrow>
           status_code (book_appointment py bd db) = 300
           \<and> member (content (book_appointment py bd db)) ''matching_leads''
               = Some (JArr
                 (map (\<lambda>m. JObj
                    [(''lead_id'', JInt (lead_id m)),
                     (''name'', (case lead_name m of None \<Rightarrow> JNull | Some v \<Rightarrow> JStr v)),
                     (''email'', (case lead_email m of None \<Rightarrow> JNull | Some v \<Rightarrow> JStr v)),
                     (''phone'', (case lead_phone m of None \<Rightarrow> JNull | Some v \<Rightarrow> JStr v)),
                     (''status'', (case lead_status m of None \<Rightarrow> JNull | Some v \<Rightarrow> JStr v)),
                     (''source'', (case lead_source m of None \<Rightarrow> JNull | Some v \<Rightarrow> JStr v))])
                  (matching_leads db uid name))))
      \<and> (length (matching_leads db uid name) = 1 \<longrightarrow>
           (fromisoformat py (replace_Z st) = None \<longrightarrow>
              status_code (book_appointment py bd db) = 400)
         \<and> (\<forall>t. fromisoformat py (replace_Z st) = Some t \<and> plus_one_hour t \<noteq> None \<longrightarrow>
              status_code (book_appointment py bd db) = 202)))
   \<and> (ic_user_id cd = Some uid \<and> ic_contact_name cd = Some name \<and> ic_call_time cd = Some ct
      \<and> tzinfo now = None \<longrightarrow>
        (matching_leads db uid name = [] \<longrightarrow> status_code (initiate_call py now cd db) = 404)
      \<and> (1 < length (matching_leads db uid name) \<longrightarrow>
           status_code (initiate_call py now cd db) = 300
           \<and> member (content (initiate_call py now cd db)) ''matching_contacts''
               = Some (JArr
                 (map (\<lambda>m. JObj
                    [(''contact_id'', JInt (lead_id m)),
                     (''name'', (case lead_name m of None \<Rightarrow> JNull | Some v \<Rightarrow> JStr v)),
                     (''email'', (case lead_email m of None \<Rightarrow> JNull | Some v \<Rightarrow> JStr v)),
                     (''phone'', (case lead_phone m of None \<Rightarrow> JNull | Some v \<Rightarrow> JStr v)),
                     (''status'', (case lead_status m of None \<Rightarrow> JNull | Some v \<Rightarrow> JStr v)),
                     (''source'', (case lead_source m of None \<Rightarrow> JNull | Some v \<Rightarrow> JStr v))])
                  (matching_leads db uid name))))
      \<and> (length (matching_leads db uid name) = 1 \<longrightarrow>
           (fromisoformat py (replace_Z ct) = None \<longrightarrow>
              status_code (initiate_call py now cd db) = 400)
         \<and> (\<forall>t. fromisoformat py (replace_Z ct) = Some t \<and> tzinfo t = None \<longrightarrow>
              status_code (initiate_call py now cd db) = 202)))
   \<and> (sm_user_id md = Some uid \<and> sm_lead_name md = Some name \<and> sm_message_type md = Some mtype
      \<and> sm_message_content md = Some mcontent \<longrightarrow>
        (upper mtype \<noteq> ''SMS'' \<and> upper mtype \<noteq> ''EMAIL'' \<longrightarrow>
           status_code (send_message py md db) = 400)
      \<and> (upper mtype = ''SMS'' \<or> upper mtype = ''EMAIL'' \<longrightarrow>
           (matching_leads db uid name = [] \<longrightarrow> status_code (send_message py md db) = 404)
         \<and> (1 < length (matching_leads db uid name) \<longrightarrow>
              status_code (send_message py md db) = 300
              \<and> member (content (send_message py md db)) ''matching_leads''
                  = Some (JArr
                    (map (\<lambda>m. JObj
                       [(''lead_id'', JInt (lead_id m)),
                        (''name'', (case lead_name m of None \<Rightarrow> JNull | Some v \<Rightarrow> JStr v)),
                        (''email'', (case lead_email m of None \<Rightarrow> JNull | Some v \<Rightarrow> JStr v)),
                        (''phone'', (case lead_phone m of None \<Rightarrow> JNull | Some v \<Rightarrow> JStr v)),
                        (''status'', (case lead_status m of None \<Rightarrow> JNull | Some v \<Rightarrow> JStr v)),
                        (''source'', (case lead_source m of None \<Rightarrow> JNull | Some v \<Rightarrow> JStr v))])
                     (matching_leads db uid name))))
         \<and> (length (matching_leads db uid name) = 1 \<longrightarrow>
              status_code (send_message py md db) = 202)))"
proof (intro conjI impI allI)
  assume "no_wildcards name"
  then show "l \<in> set (matching_leads db uid name) \<longleftrightarrow>
         l \<in> set (leads db) \<and> lead_user_id l = Some uid
         \<and> (\<exists>n pre post. lead_name l = Some n \<and> lower n = pre @ lower name @ post)"
    by (rule matching_leads_substring)
next
  assume f: "ba_user_id bd = Some uid \<and> ba_lead_name bd = Some name \<and> ba_start_time bd = Some st"
  then have g: "ba_user_id bd = Some uid" "ba_lead_name bd = Some name"
    "ba_start_time bd = Some st" by simp_all
  note c = book_appointment_cases [OF g]
  {
    assume "matching_leads db uid name = []"
    then show "status_code (book_appointment py bd db) = 404" by (rule c(1))
  next
    assume m: "1 < length (matching_leads db uid name)"
    from c(2) [OF m] show "status_code (book_appointment py bd db) = 300"
      and "member (content (book_appointment py bd db)) ''matching_leads''
           = Some (JArr
             (map (\<lambda>m. JObj
                [(''lead_id'', JInt (lead_id m)),
                 (''name'', (case lead_name m of None \<Rightarrow> JNull | Some v \<Rightarrow> JStr v)),
                 (''email'', (case lead_email m of None \<Rightarrow> JNull | Some v \<Rightarrow> JStr v)),
                 (''phone'', (case lead_phone m of None \<Rightarrow> JNull | Some v \<Rightarrow> JStr v)),
                 (''status'', (case lead_status m of None \<Rightarrow> JNull | Some v \<Rightarrow> JStr v)),
                 (''source'', (case lead_source m of None \<Rightarrow> JNull | Some v \<Rightarrow> JStr v))])
              (matching_leads db uid name)))"
      by (simp_all add: lead_info_fields)
  next
    assume "length (matching_leads db uid name) = 1"
    then obtain x where x: "matching_leads db uid name = [x]" using length_one by blast
    {
      assume "fromisoformat py (replace_Z st) = None"
      with x show "status_code (book_appointment py bd db) = 400" by (rule c(3))
    next
      fix t
      assume "fromisoformat py (replace_Z st) = Some t \<and> plus_one_hour t \<noteq> None"
      then obtain e where "fromisoformat py (replace_Z st) = Some t" "plus_one_hour t = Some e"
        by auto
      with c(5) [OF x] show "status_code (book_appointment py bd db) = 202" by blast
    }
  }
next
  assume f: "ic_user_id cd = Some uid \<and> ic_contact_name cd = Some name
             \<and> ic_call_time cd = Some ct \<and> tzinfo now = None"
  then have g: "ic_user_id cd = Some uid" "ic_contact_name cd = Some name"
    "ic_call_time cd = Some ct" and n: "tzinfo now = None" by simp_all
  note c = initiate_call_cases [OF g]
  {
    assume "matching_leads db uid name = []"
    then show "status_code (initiate_call py now cd db) = 404" by (rule c(1))
  next
    assume m: "1 < length (matching_leads db uid name)"
    from c(2) [OF m] show "status_code (initiate_call py now cd db) = 300"
      and "member (content (initiate_call py now cd db)) ''matching_contacts''
           = Some (JArr
             (map (\<lambda>m. JObj
                [(''contact_id'', JInt (lead_id m)),
                 (''name'', (case lead_name m of None \<Rightarrow> JNull | Some v \<Rightarrow> JStr v)),
                 (''email'', (case lead_email m of None \<Rightarrow> JNull | Some v \<Rightarrow> JStr v)),
                 (''phone'', (case lead_phone m of None \<Rightarrow> JNull | Some v \<Rightarrow> JStr v)),
                 (''status'', (case lead_status m of None \<Rightarrow> JNull | Some v \<Rightarrow> JStr v)),
                 (''source'', (case lead_source m of None \<Rightarrow> JNull | Some v \<Rightarrow> JStr v))])
              (matching_leads db uid name)))"
      by (simp_all add: lead_info_fields)
  next
    assume "length (matching_leads db uid name) = 1"
    then obtain x where x: "matching_leads db uid name = [x]" using length_one by blast
    {
      assume "fromisoformat py (replace_Z ct) = None"
      with x show "status_code (initiate_call py now cd db) = 400" by (rule c(3))
    next
      fix t
      assume "fromisoformat py (replace_Z ct) = Some t \<and> tzinfo t = None"
      with c(4) [OF x _ _ n] show "status_code (initiate_call py now cd db) = 202" by blast
    }
  }
next
  assume f: "sm_user_id md = Some uid \<and> sm_lead_name md = Some name
             \<and> sm_message_type md = Some mtype \<and> sm_message_content md = Some mcontent"
  then have g: "sm_user_id md = Some uid" "sm_lead_name md = Some name"
    "sm_message_type md = Some mtype" "sm_message_content md = Some mcontent" by simp_all
  note c = send_message_cases [OF g]
  {
    assume "upper mtype \<noteq> ''SMS'' \<and> upper mtype \<noteq> ''EMAIL''"
    with c(1) show "status_code (send_message py md db) = 400" by blast
  next
    assume u: "upper mtype = ''SMS'' \<or> upper mtype = ''EMAIL''"
    {
      assume "matching_leads db uid name = []"
      with u show "status_code (send_message py md db) = 404" by (rule c(2))
    next
      assume m: "1 < length (matching_leads db uid name)"
      from c(3) [OF u m] show "status_code (send_message py md db) = 300"
        and "member (content (send_message py md db)) ''matching_leads''
             = Some (JArr
               (map (\<lambda>m. JObj
                  [(''lead_id'', JInt (lead_id m)),
                   (''name'', (case lead_name m of None \<Rightarrow> JNull | Some v \<Rightarrow> JStr v)),
                   (''email'', (case lead_email m of None \<Rightarrow> JNull | Some v \<Rightarrow> JStr v)),
                   (''phone'', (case lead_phone m of None \<Rightarrow> JNull | Some v \<Rightarrow> JStr v)),
                   (''status'', (case lead_status m of None \<Rightarrow> JNull | Some v \<Rightarrow> JStr v)),
                   (''source'', (case lead_source m of None \<Rightarrow> JNull | Some v \<Rightarrow> JStr v))])
                (matching_leads db uid name)))"
        by (simp_all add: lead_info_fields)
    next
      assume "length (matching_leads db uid name) = 1"
      then obtain x where x: "matching_leads db uid name = [x]" using length_one by blast
      with u show "status_code (send_message py md db) = 202" by (rule c(4))
    }
  }
qed

theorem C1_lookup_outcomes_witness:
  "matching_leads crm_db 1 ''smith'' = [john_smith, jane_smith]
   \<and> status_code (send_message cpython sms_to_smith crm_db) = 300
   \<and> member (content (send_message cpython sms_to_smith crm_db)) ''matching_leads''
       = Some (JArr [JObj [(''lead_id'', JInt 5), (''name'', JStr ''John Smith''),
                           (''email'', JStr ''john@example.com''),
                           (''phone'', JStr ''+15550001''), (''status'', JStr ''new''),
                           (''source'', JStr ''web'')],
                     JObj [(''lead_id'', JInt 6), (''name'', JStr ''Jane Smith''),
                           (''email'', JStr ''jane@example.com''),
                           (''phone'', JNull), (''status'', JStr ''contacted''),
                           (''source'', JStr ''referral'')]])
   \<and> matching_leads crm_db 1 ''Zed'' = []
   \<and> status_code (initiate_call cpython noon call_zed crm_db) = 404
   \<and> matching_leads crm_db 1 ''John'' = [john_smith]
   \<and> status_code (initiate_call cpython noon call_john crm_db) = 202
   \<and> status_code (book_appointment cpython booking crm_db) = 202"
proof -
  have u: "upper ''sms'' = ''SMS''" by (simp add: case_defs)
  have n: "tzinfo noon = None" by (simp add: noon_def)
  have p: "plus_one_hour two_pm_utc \<noteq> None" by (simp add: example_datetimes)
  have z: "tzinfo (two_pm_utc\<lparr>tzinfo := None\<rparr>) = None" by simp
  note a = C1_lookup_outcomes [where db = crm_db and uid = 1 and py = cpython and now = noon
      and name = "''smith''" and md = sms_to_smith and mtype = "''sms''" and mcontent = "''Hello''"]
  note b = C1_lookup_outcomes [where db = crm_db and uid = 1 and py = cpython and now = noon
      and name = "''Zed''" and cd = call_zed and ct = "''2024-01-15T14:00:00''"]
  note c = C1_lookup_outcomes [where db = crm_db and uid = 1 and py = cpython and now = noon
      and name = "''John''" and cd = call_john and ct = "''2024-01-15T14:00:00''"
      and bd = booking and st = "''2024-01-15T14:00:00Z''"]
  from a u have "status_code (send_message cpython sms_to_smith crm_db) = 300
    \<and> member (content (send_message cpython sms_to_smith crm_db)) ''matching_leads''
       = Some (JArr (map (\<lambda>m. JObj
           [(''lead_id'', JInt (lead_id m)),
            (''name'', (case lead_name m of None \<Rightarrow> JNull | Some v \<Rightarrow> JStr v)),
            (''email'', (case lead_email m of None \<Rightarrow> JNull | Some v \<Rightarrow> JStr v)),
            (''phone'', (case lead_phone m of None \<Rightarrow> JNull | Some v \<Rightarrow> JStr v)),
            (''status'', (case lead_status m of None \<Rightarrow> JNull | Some v \<Rightarrow> JStr v)),
            (''source'', (case lead_source m of None \<Rightarrow> JNull | Some v \<Rightarrow> JStr v))])
         [john_smith, jane_smith]))"
    by (simp add: sms_to_smith_def example_lookups)
  then have "status_code (send_message cpython sms_to_smith crm_db) = 300
    \<and> member (content (send_message cpython sms_to_smith crm_db)) ''matching_leads''
       = Some (JArr [JObj [(''lead_id'', JInt 5), (''name'', JStr ''John Smith''),
                           (''email'', JStr ''john@example.com''),
                           (''phone'', JStr ''+15550001''), (''status'', JStr ''new''),
                           (''source'', JStr ''web'')],
                     JObj [(''lead_id'', JInt 6), (''name'', JStr ''Jane Smith''),
                           (''email'', JStr ''jane@example.com''),
                           (''phone'', JNull), (''status'', JStr ''contacted''),
                           (''source'', JStr ''referral'')]])"
    by (simp add: john_smith_def jane_smith_def)
  moreover from b n have "status_code (initiate_call cpython noon call_zed crm_db) = 404"
    by (simp add: call_zed_def call_john_def example_lookups)
  moreover from c n z have "status_code (initiate_call cpython noon call_john crm_db) = 202"
    by (simp add: call_john_def example_lookups example_datetimes)
  moreover from c p have "status_code (book_appointment cpython booking crm_db) = 202"
    by (simp add: booking_def example_lookups example_datetimes)
  ultimately show ?thesis by (simp add: example_lookups)
qed

text \<open>
  C8, as stated: the \<open>start_time\<close> of every 202 response carries the offset \<open>+00:00\<close>.
  It fails: only a \<open>Z\<close> is replaced, so a start time submitted without an offset is
  answered without one.
\<close>

theorem C8_offset_counterexample:
  "status_code (book_appointment cpython booking_naive crm_db) = 202
   \<and> at_path (content (book_appointment cpython booking_naive crm_db))
         [''appointment_details'', ''start_time''] = Some (JStr ''2024-01-15T14:00:00'')"
proof -
  have f: "ba_user_id booking_naive = Some 1" "ba_lead_name booking_naive = Some ''John''"
    "ba_start_time booking_naive = Some ''2024-01-15T14:00:00''"
    by (simp_all add: booking_naive_def booking_def)
  have p: "plus_one_hour (two_pm_utc\<lparr>tzinfo := None\<rparr>) = Some (three_pm_utc\<lparr>tzinfo := None\<rparr>)"
    by (simp add: two_pm_utc_def three_pm_utc_def datetime_defs)
  have i: "isoformat (two_pm_utc\<lparr>tzinfo := None\<rparr>) = ''2024-01-15T14:00:00''"
    by (simp add: two_pm_utc_def datetime_defs)
  from book_appointment_cases(5) [OF f example_lookups(1) example_datetimes(6) p] i
  show ?thesis by simp
qed

text \<open>
  C8, amended: a booking that is answered 202 had exactly one matching lead and a start
  time that parsed, after every \<open>Z\<close> was replaced by \<open>+00:00\<close>. The response carries the
  ISO rendering of that datetime as \<open>start_time\<close>, the ISO rendering of the datetime one
  hour later as \<open>end_time\<close>, and the name of the matched lead. The later datetime has
  the same \<open>tzinfo\<close>, and its wall-clock reading is 3600 seconds after the start's.
\<close>

theorem C8_book_appointment_accepted:
  "status_code (book_appointment py data db) = 202 \<Longrightarrow>
   \<exists>uid name st lead start_time end_time.
     ba_user_id data = Some uid \<and> ba_lead_name data = Some name \<and> ba_start_time data = Some st
     \<and> matching_leads db uid name = [lead]
     \<and> fromisoformat py (replace_Z st) = Some start_time
     \<and> plus_one_hour start_time = Some end_time
     \<and> at_path (content (book_appointment py data db)) [''appointment_details'', ''start_time'']
         = Some (JStr (isoformat start_time))
     \<and> at_path (content (book_appointment py data db)) [''appointment_details'', ''end_time'']
         = Some (JStr (isoformat end_time))
     \<and> at_path (content (book_appointment py data db)) [''lead_details'', ''name'']
         = Some (json_opt_str (lead_name lead))
     \<and> tzinfo end_time = tzinfo start_time
     \<and> (valid_datetime start_time \<longrightarrow>
          valid_datetime end_time \<and> wall_micros end_time = wall_micros start_time + 3600000000)"
proof -
  assume a: "status_code (book_appointment py data db) = 202"
  with book_appointment_missing [of data py db]
  obtain uid name st where
    f: "ba_user_id data = Some uid" "ba_lead_name data = Some name" "ba_start_time data = Some st"
    by (cases "ba_user_id data"; cases "ba_lead_name data"; cases "ba_start_time data") auto
  note c = book_appointment_cases [OF f]
  from a c(1) have ne: "matching_leads db uid name \<noteq> []" by auto
  from a c(2) have "\<not> 1 < length (matching_leads db uid name)" by auto
  with ne have m: "matching_leads db uid name = [hd (matching_leads db uid name)]"
    by (rule singleton_hd)
  from a c(3) [OF m] obtain start_time where s: "fromisoformat py (replace_Z st) = Some start_time"
    by (cases "fromisoformat py (replace_Z st)") auto
  from a c(4) [OF m s] obtain end_time where e: "plus_one_hour start_time = Some end_time"
    by (cases "plus_one_hour start_time") auto
  have tz: "tzinfo end_time = tzinfo start_time"
    using e by (auto simp add: plus_one_hour_def split: if_splits prod.splits)
  from f m s e c(5) [OF m s e] tz plus_one_hour_exact [OF _ e]
  show ?thesis by blast
qed


theorem C8_book_appointment_accepted_witness:
  "status_code (book_appointment cpython booking crm_db) = 202
   \<and> ba_start_time booking = Some ''2024-01-15T14:00:00Z''
   \<and> at_path (content (book_appointment cpython booking crm_db))
         [''appointment_details'', ''start_time''] = Some (JStr ''2024-01-15T14:00:00+00:00'')
   \<and> at_path (content (book_appointment cpython booking crm_db))
         [''appointment_details'', ''end_time''] = Some (JStr ''2024-01-15T15:00:00+00:00'')
   \<and> at_path (content (book_appointment cpython booking crm_db))
         [''lead_details'', ''name''] = Some (JStr ''John Smith'')
   \<and> wall_micros three_pm_utc = wall_micros two_pm_utc + 3600000000"
proof -
  have f: "ba_user_id booking = Some 1" "ba_lead_name booking = Some ''John''"
    "ba_start_time booking = Some ''2024-01-15T14:00:00Z''"
    by (simp_all add: booking_def)
  have s: "status_code (book_appointment cpython booking crm_db) = 202"
    using book_appointment_cases(5) [OF f example_lookups(1) example_datetimes(1,2)] by simp
  have v: "valid_datetime two_pm_utc"
    by (rule fromisoformat_basic_valid) (use example_datetimes(1) in \<open>simp add: cpython_def\<close>)
  from C8_book_appointment_accepted [OF s] f v s
  show ?thesis
    by (auto simp add: example_lookups example_datetimes json_opt_str_def john_smith_def)
qed

section \<open>C7: cleaning a drafted email\<close>

text \<open>
  C7, as stated: cleaning twice equals cleaning once for every input. It fails: the
  function takes off one fence and one leading \<open>html\<close> line, so a text with two
  leading \<open>html\<close> lines is cleaned to a text that still has one.
\<close>

theorem C7_idempotent_counterexample:
  "\<not> (\<forall>s. clean_generated_email (clean_generated_email s) = clean_generated_email s)"
proof
  assume "\<forall>s. clean_generated_email (clean_generated_email s) = clean_generated_email s"
  then have "clean_generated_email (clean_generated_email ''html\<newline>html'')
             = clean_generated_email ''html\<newline>html''"
    by blast
  then show False by (simp add: clean_defs)
qed

text \<open>
  C7, amended: the fenced example and the plain example are both cleaned to \<open>Hello\<close>,
  and cleaning twice equals cleaning once for every input whose cleaned text is neither
  wrapped in a fence nor led by a bare \<open>html\<close> line.
\<close>

theorem C7_clean_generated_email:
  "clean_generated_email ''```html\<newline>Hello\<newline>```'' = ''Hello''
   \<and> clean_generated_email ''Hello'' = ''Hello''
   \<and> (\<forall>s. \<not> fenced (clean_generated_email s) \<and> \<not> html_led (clean_generated_email s)
          \<longrightarrow> clean_generated_email (clean_generated_email s) = clean_generated_email s)"
proof (intro conjI allI impI)
  show "clean_generated_email ''```html\<newline>Hello\<newline>```'' = ''Hello''"
    by (simp add: clean_defs)
  show "clean_generated_email ''Hello'' = ''Hello''"
    by (simp add: clean_defs)
next
  fix s
  assume "\<not> fenced (clean_generated_email s) \<and> \<not> html_led (clean_generated_email s)"
  then show "clean_generated_email (clean_generated_email s) = clean_generated_email s"
    using clean_fixed [OF clean_stripped] by blast
qed

theorem C7_clean_generated_email_witness:
  "\<not> fenced (clean_generated_email ''```html\<newline>Hello\<newline>```'')
   \<and> \<not> html_led (clean_generated_email ''```html\<newline>Hello\<newline>```'')
   \<and> clean_generated_email (clean_generated_email ''```html\<newline>Hello\<newline>```'')
       = clean_generated_email ''```html\<newline>Hello\<newline>```''"
proof -
  have c: "clean_generated_email ''```html\<newline>Hello\<newline>```'' = ''Hello''"
    by (simp add: clean_defs)
  have f: "\<not> fenced ''Hello''" and h: "\<not> html_led ''Hello''"
    by (simp_all add: fenced_def html_led_def clean_defs)
  from C7_clean_generated_email
  have "\<not> fenced (clean_generated_email ''```html\<newline>Hello\<newline>```'')
        \<and> \<not> html_led (clean_generated_email ''```html\<newline>Hello\<newline>```'')
        \<longrightarrow> clean_generated_email (clean_generated_email ''```html\<newline>Hello\<newline>```'')
            = clean_generated_email ''```html\<newline>Hello\<newline>```''"
    by blast
  with c f h show ?thesis by simp
qed

end
